theory Spec2Isabelle
  imports Main "HOL-Library.Multiset"
begin

section \<open>Data model\<close>

text \<open>
  A Go \<open>error\<close> interface value is an \<open>error option\<close>: \<open>None\<close> is \<open>nil\<close>.
  The constructors are the error shapes that the engine tells apart:
  an opaque error with its message, the platform's API status error with its reason,
  \<open>exec.CodeExitError{Err, Code}\<close> of client-go, and \<open>*multierror.Error{Errors}\<close>.
\<close>

datatype error =
    ErrorString string
  | StatusError string
  | CodeExitError error int
  | MultiError "error list"

text \<open>The fields of \<open>Spec\<close>, \<open>Step\<close> and \<open>State\<close> that the engine reads or writes.\<close>

record Secret =
  Name :: string
  Data :: string

record PodSpec =
  Name :: string
  Namespace :: string

record Spec =
  PodSpec :: PodSpec
  PullSecret :: "Secret option"

record Step =
  ID :: string

record State =
  ExitCode :: int
  Exited :: bool
  OOMKilled :: bool

text \<open>
  The platform's objects, as far as the engine looks into them: \<open>metav1.ObjectMeta\<close>,
  embedded in \<open>v1.Secret\<close> and \<open>v1.Pod\<close>; a pod carries \<open>Status.Phase\<close>, a string.
\<close>

record ObjectMeta =
  Name :: string
  Namespace :: string

record V1Secret = ObjectMeta +
  Type :: string
  StringData :: "(string \<times> string) list"

record PodStatus =
  Phase :: string

record Pod = ObjectMeta +
  Status :: PodStatus

definition PodPending :: string where "PodPending = ''Pending''"
definition PodRunning :: string where "PodRunning = ''Running''"
definition PodSucceeded :: string where "PodSucceeded = ''Succeeded''"
definition PodFailed :: string where "PodFailed = ''Failed''"
definition PodUnknown :: string where "PodUnknown = ''Unknown''"

text \<open>\<open>metav1.DeleteOptions\<close>: \<open>GracePeriodSeconds\<close> is a \<open>*int64\<close>, \<open>nil\<close> for the platform's default.\<close>

record DeleteOptions =
  GracePeriodSeconds :: "int option"

definition DeleteOptions_zero :: DeleteOptions where
  "DeleteOptions_zero = \<lparr>GracePeriodSeconds = None\<rparr>"

definition int64ptr :: "int \<Rightarrow> int option" where
  "int64ptr v = Some v"

section \<open>The platform client\<close>

text \<open>
  The calls of \<open>client.CoreV1()\<close> that \<open>Setup\<close> and \<open>Destroy\<close> make. The first argument is
  the namespace of the typed client (\<open>Secrets(ns)\<close>, \<open>ConfigMaps(ns)\<close>, \<open>Pods(ns)\<close>).
\<close>

datatype request =
    SecretsCreate string V1Secret
  | PodsCreate string Pod
  | SecretsDelete string string DeleteOptions
  | ConfigMapsDelete string string DeleteOptions
  | PodsDelete string string DeleteOptions

fun is_delete :: "request \<Rightarrow> bool" where
  "is_delete (SecretsDelete _ _ _) = True"
| "is_delete (ConfigMapsDelete _ _ _) = True"
| "is_delete (PodsDelete _ _ _) = True"
| "is_delete _ = False"

text \<open>
  The platform is a parameter: any function from a request and the platform's state to the
  returned error and the next state. The world pairs the platform's state with the log of
  the calls made so far, each with the error it returned.
\<close>

type_synonym 'p api = "request \<Rightarrow> 'p \<Rightarrow> error option \<times> 'p"

record 'p world =
  platform :: 'p
  calls :: "(request \<times> error option) list"

definition call :: "'p api \<Rightarrow> request \<Rightarrow> 'p world \<Rightarrow> error option \<times> 'p world" where
  "call api r w =
     (case api r (platform w) of
        (e, p') \<Rightarrow> (e, \<lparr>platform = p', calls = calls w @ [(r, e)]\<rparr>))"

text \<open>
  The descriptor builders \<open>toDockerConfigSecret\<close>, \<open>toSecret\<close> and \<open>toPod\<close> are defined
  elsewhere in the package; the engine only passes their results on, so they are parameters.
\<close>

record Builder =
  toDockerConfigSecret :: "Spec \<Rightarrow> V1Secret"
  toSecret :: "Spec \<Rightarrow> V1Secret"
  toPod :: "Spec \<Rightarrow> Pod"

section \<open>Setup\<close>

definition Setup :: "'p api \<Rightarrow> Builder \<Rightarrow> Spec \<Rightarrow> 'p world \<Rightarrow> error option \<times> 'p world" where
  "Setup api b spec w0 =
     (case (if PullSecret spec \<noteq> None
            then call api (SecretsCreate (PodSpec.Namespace (PodSpec spec)) (toDockerConfigSecret b spec)) w0
            else (None, w0)) of
        (Some err, w1) \<Rightarrow> (Some err, w1)
      | (None, w1) \<Rightarrow>
          (case call api (SecretsCreate (PodSpec.Namespace (PodSpec spec)) (toSecret b spec)) w1 of
             (Some err, w2) \<Rightarrow> (Some err, w2)
           | (None, w2) \<Rightarrow>
               (case call api (PodsCreate (PodSpec.Namespace (PodSpec spec)) (toPod b spec)) w2 of
                  (Some err, w3) \<Rightarrow> (Some err, w3)
                | (None, w3) \<Rightarrow> (None, w3))))"

section \<open>Destroy\<close>

text \<open>
  \<open>multierror.Append(err, e)\<close> of go-multierror with one appended error: the result is
  always a \<open>*multierror.Error\<close>; a multierror on either side is flattened into it.
\<close>

fun flatten :: "error \<Rightarrow> error list" where
  "flatten (MultiError es) = es"
| "flatten e = [e]"

definition Append :: "error option \<Rightarrow> error \<Rightarrow> error" where
  "Append result err =
     (case result of
        None \<Rightarrow> MultiError (flatten err)
      | Some r \<Rightarrow> MultiError (flatten r @ flatten err))"

text \<open>\<open>if err != nil { result = multierror.Append(result, err) }\<close> after a call.\<close>

definition collect :: "error option \<Rightarrow> error option \<times> 'p world \<Rightarrow> error option \<times> 'p world" where
  "collect result c =
     (case c of
        (Some err, w) \<Rightarrow> (Some (Append result err), w)
      | (None, w) \<Rightarrow> (result, w))"

definition Destroy :: "'p api \<Rightarrow> Spec \<Rightarrow> 'p world \<Rightarrow> error option \<times> 'p world" where
  "Destroy api spec w0 =
     (let (result1, w1) =
            (case PullSecret spec of
               Some ps \<Rightarrow>
                 collect None
                   (call api (SecretsDelete (PodSpec.Namespace (PodSpec spec)) (Secret.Name ps)
                      DeleteOptions_zero) w0)
             | None \<Rightarrow> (None, w0));
          (result2, w2) =
            collect result1
              (call api (SecretsDelete (PodSpec.Namespace (PodSpec spec)) (PodSpec.Name (PodSpec spec))
                 DeleteOptions_zero) w1);
          (result3, w3) =
            collect result2
              (call api (ConfigMapsDelete (PodSpec.Namespace (PodSpec spec)) (PodSpec.Name (PodSpec spec))
                 DeleteOptions_zero) w2);
          (result4, w4) =
            collect result3
              (call api (PodsDelete (PodSpec.Namespace (PodSpec spec)) (PodSpec.Name (PodSpec spec))
                 \<lparr>GracePeriodSeconds = int64ptr 0\<rparr>) w3)
      in (result4, w4))"

section \<open>Sequences of calls\<close>

text \<open>
  Two ways to run a list of requests, for the proofs: \<open>until_error\<close> stops at the first
  call that returns an error and returns it; \<open>collect_all\<close> makes every call and collects
  the errors. \<open>Setup\<close> is shown to be the first and \<open>Destroy\<close> the second, on the lists
  \<open>setup_requests\<close> and \<open>destroy_requests\<close>.
\<close>

fun until_error :: "'p api \<Rightarrow> request list \<Rightarrow> 'p world \<Rightarrow> error option \<times> 'p world" where
  "until_error api [] w = (None, w)"
| "until_error api (q # qs) w =
     (case call api q w of
        (Some err, w') \<Rightarrow> (Some err, w')
      | (None, w') \<Rightarrow> until_error api qs w')"

fun collect_all :: "'p api \<Rightarrow> request list \<Rightarrow> error option \<Rightarrow> 'p world \<Rightarrow> error option \<times> 'p world" where
  "collect_all api [] result w = (result, w)"
| "collect_all api (q # qs) result w =
     (case collect result (call api q w) of (result', w') \<Rightarrow> collect_all api qs result' w')"

definition setup_requests :: "Builder \<Rightarrow> Spec \<Rightarrow> request list" where
  "setup_requests b spec =
     (case PullSecret spec of
        None \<Rightarrow> []
      | Some _ \<Rightarrow> [SecretsCreate (PodSpec.Namespace (PodSpec spec)) (toDockerConfigSecret b spec)])
     @ [SecretsCreate (PodSpec.Namespace (PodSpec spec)) (toSecret b spec),
        PodsCreate (PodSpec.Namespace (PodSpec spec)) (toPod b spec)]"

definition destroy_requests :: "Spec \<Rightarrow> request list" where
  "destroy_requests spec =
     (case PullSecret spec of
        None \<Rightarrow> []
      | Some ps \<Rightarrow>
          [SecretsDelete (PodSpec.Namespace (PodSpec spec)) (Secret.Name ps)
             \<lparr>GracePeriodSeconds = None\<rparr>])
     @ [SecretsDelete (PodSpec.Namespace (PodSpec spec)) (PodSpec.Name (PodSpec spec))
          \<lparr>GracePeriodSeconds = None\<rparr>,
        ConfigMapsDelete (PodSpec.Namespace (PodSpec spec)) (PodSpec.Name (PodSpec spec))
          \<lparr>GracePeriodSeconds = None\<rparr>,
        PodsDelete (PodSpec.Namespace (PodSpec spec)) (PodSpec.Name (PodSpec spec))
          \<lparr>GracePeriodSeconds = Some 0\<rparr>]"

text \<open>
  What the platform does with a list of requests, one after the other: the error it
  returns to each, and its state after the last.
\<close>

fun replay :: "'p api \<Rightarrow> request list \<Rightarrow> 'p \<Rightarrow> error option list \<times> 'p" where
  "replay api [] p = ([], p)"
| "replay api (q # qs) p =
     (case api q p of
        (e, p') \<Rightarrow> (case replay api qs p' of (es, p'') \<Rightarrow> (e # es, p'')))"

definition appended :: "error option \<Rightarrow> error list \<Rightarrow> error option" where
  "appended result errs = fold (\<lambda>e r. Some (Append r e)) errs result"

section \<open>An object store for the platform\<close>

text \<open>
  The platform itself is outside the engine. For concrete runs it is an object store that
  holds the kind, namespace and name of every object: creating an object that exists is
  refused (\<open>AlreadyExists\<close>), deleting one that does not exist is refused (\<open>NotFound\<close>),
  as the platform's API answers.
\<close>

datatype kind = SecretKind | ConfigMapKind | PodKind

type_synonym cluster = "(kind \<times> string \<times> string) set"

definition store_create :: "kind \<Rightarrow> string \<Rightarrow> string \<Rightarrow> cluster \<Rightarrow> error option \<times> cluster" where
  "store_create k ns n c =
     (if (k, ns, n) \<in> c then (Some (StatusError ''AlreadyExists''), c)
      else (None, insert (k, ns, n) c))"

definition store_delete :: "kind \<Rightarrow> string \<Rightarrow> string \<Rightarrow> cluster \<Rightarrow> error option \<times> cluster" where
  "store_delete k ns n c =
     (if (k, ns, n) \<in> c then (None, c - {(k, ns, n)})
      else (Some (StatusError ''NotFound''), c))"

fun kube :: "cluster api" where
  "kube (SecretsCreate ns s) c = store_create SecretKind ns (ObjectMeta.Name s) c"
| "kube (PodsCreate ns p) c = store_create PodKind ns (ObjectMeta.Name p) c"
| "kube (SecretsDelete ns n _) c = store_delete SecretKind ns n c"
| "kube (ConfigMapsDelete ns n _) c = store_delete ConfigMapKind ns n c"
| "kube (PodsDelete ns n _) c = store_delete PodKind ns n c"

text \<open>
  Modelled from the spec: the descriptor builders \<open>toDockerConfigSecret\<close>, \<open>toSecret\<close> and
  \<open>toPod\<close> of the package, which are not in the engine's file. The spec's scenario has
  Setup create the secret and the pod under the Spec's name; the pull secret is the one
  Destroy deletes, under the pull secret's own name.
\<close>

definition spec_builder :: Builder where
  "spec_builder =
     \<lparr>toDockerConfigSecret = (\<lambda>spec.
          \<lparr>ObjectMeta.Name = (case PullSecret spec of Some ps \<Rightarrow> Secret.Name ps | None \<Rightarrow> []),
           ObjectMeta.Namespace = [],
           Type = ''kubernetes.io/dockerconfigjson'',
           StringData = (case PullSecret spec of
                           Some ps \<Rightarrow> [(''.dockerconfigjson'', Secret.Data ps)]
                         | None \<Rightarrow> [])\<rparr>),
      toSecret = (\<lambda>spec.
          \<lparr>ObjectMeta.Name = PodSpec.Name (PodSpec spec),
           ObjectMeta.Namespace = [],
           Type = ''Opaque'',
           StringData = []\<rparr>),
      toPod = (\<lambda>spec.
          \<lparr>ObjectMeta.Name = PodSpec.Name (PodSpec spec),
           ObjectMeta.Namespace = PodSpec.Namespace (PodSpec spec),
           Status = \<lparr>Phase = []\<rparr>\<rparr>)\<rparr>"

text \<open>The spec's scenario: name \<open>build-abc123\<close>, namespace \<open>drone\<close>, no pull secret.\<close>

definition scenario_spec :: Spec where
  "scenario_spec =
     \<lparr>PodSpec = \<lparr>PodSpec.Name = ''build-abc123'', PodSpec.Namespace = ''drone''\<rparr>,
      PullSecret = None\<rparr>"

definition scenario_spec_pull :: Spec where
  "scenario_spec_pull =
     \<lparr>PodSpec = \<lparr>PodSpec.Name = ''build-abc123'', PodSpec.Namespace = ''drone''\<rparr>,
      PullSecret = Some \<lparr>Secret.Name = ''regcred'', Secret.Data = ''{}''\<rparr>\<rparr>"

definition empty_world :: "cluster world" where
  "empty_world = \<lparr>platform = {}, calls = []\<rparr>"

section \<open>Waiting for the pod\<close>

text \<open>
  A watch event carries its type, a string (\<open>watch.Added = "ADDED"\<close> and so on), and an
  object. The type assertion \<open>e.Object.(*v1.Pod)\<close> tells a pod from any other object, so the
  object is a pod or something else (a \<open>*metav1.Status\<close> in an error event, or no object at
  all). The watch decodes every object it delivers into a fresh value, so a pod object
  is a pod, never a nil \<open>*v1.Pod\<close>.
\<close>

definition Added :: string where "Added = ''ADDED''"
definition Modified :: string where "Modified = ''MODIFIED''"
definition Deleted :: string where "Deleted = ''DELETED''"
definition Bookmark :: string where "Bookmark = ''BOOKMARK''"
definition Error :: string where "Error = ''ERROR''"

datatype runtime_Object = PodObject Pod | OtherObject string

record Event =
  Type :: string
  Object :: runtime_Object

text \<open>The condition that \<open>waitForReady\<close> passes to \<open>waitFor\<close>.\<close>

definition conditionFunc :: "Spec \<Rightarrow> Event \<Rightarrow> bool \<times> error option" where
  "conditionFunc spec e =
     (if Event.Type e = Added \<or> Event.Type e = Modified then
        (case Event.Object e of
           PodObject pod \<Rightarrow>
             if ObjectMeta.Name pod \<noteq> PodSpec.Name (PodSpec spec) then (False, None)
             else if Phase (Status pod) = PodRunning then (True, None)
             else (False, None)
         | OtherObject _ \<Rightarrow> (False, None))
      else (False, None))"

text \<open>
  \<open>cache.Store\<close> is used through \<open>Get\<close> alone, which returns the item, whether it exists,
  and an error. The precondition asks for the \<open>ObjectMeta\<close> with the Spec's namespace and name.
\<close>

type_synonym Store = "unit ObjectMeta_scheme \<Rightarrow> runtime_Object option \<times> bool \<times> error option"

definition preconditionFunc :: "Spec \<Rightarrow> Store \<Rightarrow> bool \<times> error option" where
  "preconditionFunc spec store =
     (case store \<lparr>ObjectMeta.Name = PodSpec.Name (PodSpec spec),
                  ObjectMeta.Namespace = PodSpec.Namespace (PodSpec spec)\<rparr> of
        (item, exists, err) \<Rightarrow>
          if err \<noteq> None then (True, err)
          else if \<not> exists then (True, err)
          else (False, None))"

text \<open>
  \<open>watchtools.UntilWithSync\<close> belongs to client-go. What it does with the engine's
  arguments depends on the platform in three ways: how the wait for the informer's cache
  ends (synced, the context done first, or never), the store that holds the listed pods
  once synced, and what every \<open>select\<close> of the watch loop finds: an event, the closed
  channel, or the done context. When that list is used up nothing more ever arrives, and
  the wait does not return: the result is \<open>None\<close>. A wait that returns gives its error
  and the part of the list it has not looked at.
\<close>

datatype sync = Synced | ContextDoneBeforeSync | NeverSynced

datatype select = Received Event | ChannelClosed | ContextDone

record WatchEnv =
  cache_sync :: sync
  store :: Store
  stream :: "select list"

record ListWatch =
  Namespace :: string
  LabelSelector :: string

definition ErrWatchClosed :: error where
  "ErrWatchClosed = ErrorString ''watch closed before UntilWithoutRetry timeout''"

definition ErrWaitTimeout :: error where
  "ErrWaitTimeout = ErrorString ''timed out waiting for the condition''"

definition ErrCacheSync :: error where
  "ErrCacheSync = ErrorString ''UntilWithSync: unable to sync caches''"

fun UntilWithoutRetry ::
  "(Event \<Rightarrow> bool \<times> error option) \<Rightarrow> select list \<Rightarrow> (error option \<times> select list) option" where
  "UntilWithoutRetry condition [] = None"
| "UntilWithoutRetry condition (Received event # rest) =
     (case condition event of
        (done, Some err) \<Rightarrow> Some (Some err, rest)
      | (True, None) \<Rightarrow> Some (None, rest)
      | (False, None) \<Rightarrow> UntilWithoutRetry condition rest)"
| "UntilWithoutRetry condition (ChannelClosed # rest) = Some (Some ErrWatchClosed, rest)"
| "UntilWithoutRetry condition (ContextDone # rest) = Some (Some ErrWaitTimeout, rest)"

definition UntilWithSync ::
  "WatchEnv \<Rightarrow> (Store \<Rightarrow> bool \<times> error option) \<Rightarrow> (Event \<Rightarrow> bool \<times> error option)
     \<Rightarrow> (error option \<times> select list) option" where
  "UntilWithSync env precondition condition =
     (case cache_sync env of
        NeverSynced \<Rightarrow> None
      | ContextDoneBeforeSync \<Rightarrow> Some (Some ErrCacheSync, stream env)
      | Synced \<Rightarrow>
          (case precondition (store env) of
             (done, Some err) \<Rightarrow> Some (Some err, stream env)
           | (True, None) \<Rightarrow> Some (None, stream env)
           | (False, None) \<Rightarrow> UntilWithoutRetry condition (stream env)))"

text \<open>
  \<open>waitFor\<close> lists and watches the pods of the Spec's namespace that carry the label
  \<open>io.drone.name=<name>\<close>; the platform answers such a request with a \<open>WatchEnv\<close>.
\<close>

definition waitFor ::
  "(ListWatch \<Rightarrow> WatchEnv) \<Rightarrow> Spec \<Rightarrow> (Event \<Rightarrow> bool \<times> error option)
     \<Rightarrow> (error option \<times> select list) option" where
  "waitFor watch spec condition =
     (let label = ''io.drone.name='' @ PodSpec.Name (PodSpec spec);
          lw = \<lparr>Namespace = PodSpec.Namespace (PodSpec spec), LabelSelector = label\<rparr>
      in UntilWithSync (watch lw) (preconditionFunc spec) condition)"

definition waitForReady ::
  "(ListWatch \<Rightarrow> WatchEnv) \<Rightarrow> Spec \<Rightarrow> Step \<Rightarrow> (error option \<times> select list) option" where
  "waitForReady watch spec step = waitFor watch spec (conditionFunc spec)"

section \<open>Running the step\<close>

text \<open>
  The exec request that \<open>start\<close> builds, and what the platform makes of it:
  the error of \<open>remotecommand.NewSPDYExecutor\<close>, the chunks the remote process writes to the
  two streams while \<open>Stream\<close> runs, and the error \<open>Stream\<close> returns (\<open>None\<close> when it never
  returns).
\<close>

record ExecRequest =
  Resource :: string
  Name :: string
  Namespace :: string
  SubResource :: string
  Container :: string
  Command :: "string list"
  Stdout :: bool
  Stderr :: bool

datatype fd = StdoutStream | StderrStream

record ExecEnv =
  executor_err :: "error option"
  writes :: "(fd \<times> string) list"
  stream_result :: "error option option"

text \<open>
  What \<open>start\<close> changes: the bytes that have reached the caller's \<open>output\<close> writer, and the
  record of what it did, in order.
\<close>

datatype action = NewSPDYExecutor ExecRequest | Stream | Flush fd

record RunWorld =
  written :: string
  actions :: "action list"

text \<open>
  Modelled from the spec: the \<open>nicelog\<close> writer, a package of the repository that is not
  in the engine's file. The sink buffers by line: a write delivers the complete lines
  to the underlying writer and holds the partial line that follows the last newline;
  \<open>Flush\<close> delivers what is held.
\<close>

record Writer =
  pending :: string

definition nicelog_New :: Writer where
  "nicelog_New = \<lparr>pending = []\<rparr>"

definition held :: "string \<Rightarrow> string" where
  "held s = rev (takeWhile (\<lambda>c. c \<noteq> CHR 0x0A) (rev s))"

definition nicelog_Write :: "string \<Rightarrow> Writer \<Rightarrow> string \<Rightarrow> Writer \<times> string" where
  "nicelog_Write p wr out =
     (let buf = pending wr @ p; rest = held buf
      in (\<lparr>pending = rest\<rparr>, out @ take (length buf - length rest) buf))"

definition nicelog_Flush :: "Writer \<Rightarrow> string \<Rightarrow> Writer \<times> string" where
  "nicelog_Flush wr out = (\<lparr>pending = []\<rparr>, out @ pending wr)"

text \<open>The writes of the remote process, each into the sink of its stream.\<close>

fun deliver :: "(fd \<times> string) list \<Rightarrow> Writer \<Rightarrow> Writer \<Rightarrow> string \<Rightarrow> Writer \<times> Writer \<times> string" where
  "deliver [] so se out = (so, se, out)"
| "deliver ((StdoutStream, p) # ws) so se out =
     (case nicelog_Write p so out of (so', out') \<Rightarrow> deliver ws so' se out')"
| "deliver ((StderrStream, p) # ws) so se out =
     (case nicelog_Write p se out of (se', out') \<Rightarrow> deliver ws so se' out')"

definition exec_request :: "Spec \<Rightarrow> Step \<Rightarrow> ExecRequest" where
  \<open>exec_request spec step =
     \<lparr>Resource = ''pods'',
      Name = PodSpec.Name (PodSpec spec),
      Namespace = PodSpec.Namespace (PodSpec spec),
      SubResource = ''exec'',
      Container = ID step,
      Command = [''sh'', ''-c'', ''echo "$DRONE_SCRIPT" | sh''],
      Stdout = True,
      Stderr = True\<rparr>\<close>

definition start ::
  "(ExecRequest \<Rightarrow> ExecEnv) \<Rightarrow> Spec \<Rightarrow> Step \<Rightarrow> RunWorld
     \<Rightarrow> (State option \<times> error option) option \<times> RunWorld" where
  "start exec spec step w0 =
     (let stdoutOutput = nicelog_New;
          stderrOutput = nicelog_New;
          req = exec_request spec step;
          env = exec req;
          w1 = w0\<lparr>actions := actions w0 @ [NewSPDYExecutor req]\<rparr>
      in case executor_err env of
           Some err \<Rightarrow> (Some (None, Some err), w1)
         | None \<Rightarrow>
             (let state = \<lparr>ExitCode = 0, Exited = True, OOMKilled = False\<rparr>;
                  (so, se, out) = deliver (writes env) stdoutOutput stderrOutput (written w1);
                  w2 = \<lparr>written = out, actions = actions w1 @ [Stream]\<rparr>
              in case stream_result env of
                   None \<Rightarrow> (None, w2)
                 | Some err \<Rightarrow>
                     (let (so', out3) = nicelog_Flush so (written w2);
                          w3 = \<lparr>written = out3, actions = actions w2 @ [Flush StdoutStream]\<rparr>;
                          (se', out4) = nicelog_Flush se (written w3);
                          w4 = \<lparr>written = out4, actions = actions w3 @ [Flush StderrStream]\<rparr>
                      in case err of
                           None \<Rightarrow> (Some (Some state, None), w4)
                         | Some (CodeExitError e code) \<Rightarrow>
                             (Some (Some (state\<lparr>ExitCode := code\<rparr>), None), w4)
                         | Some other \<Rightarrow> (Some (None, Some other), w4))))"

definition Run ::
  "(ListWatch \<Rightarrow> WatchEnv) \<Rightarrow> (ExecRequest \<Rightarrow> ExecEnv) \<Rightarrow> Spec \<Rightarrow> Step \<Rightarrow> RunWorld
     \<Rightarrow> (State option \<times> error option) option \<times> RunWorld" where
  "Run watch exec spec step w =
     (case waitForReady watch spec step of
        None \<Rightarrow> (None, w)
      | Some (Some err, rest) \<Rightarrow> (Some (None, Some err), w)
      | Some (None, rest) \<Rightarrow> start exec spec step w)"

section \<open>The scenario of the specification\<close>

text \<open>
  Step \<open>step0\<close> of the Spec \<open>build-abc123\<close>: the pod is listed, is seen pending and then
  running, and the remote process writes two lines and the start of a third.
\<close>

definition scenario_step :: Step where
  "scenario_step = \<lparr>ID = ''step0''\<rparr>"

definition scenario_pod :: "string \<Rightarrow> Pod" where
  "scenario_pod phase =
     \<lparr>ObjectMeta.Name = ''build-abc123'', ObjectMeta.Namespace = ''drone'',
      Status = \<lparr>Phase = phase\<rparr>\<rparr>"

definition store_of :: "Pod list \<Rightarrow> Store" where
  "store_of pods meta =
     (case find (\<lambda>p. ObjectMeta.Name p = ObjectMeta.Name meta
                    \<and> ObjectMeta.Namespace p = ObjectMeta.Namespace meta) pods of
        Some p \<Rightarrow> (Some (PodObject p), True, None)
      | None \<Rightarrow> (None, False, None))"

definition scenario_watch :: "ListWatch \<Rightarrow> WatchEnv" where
  "scenario_watch lw =
     \<lparr>cache_sync = Synced,
      store = store_of [scenario_pod PodPending],
      stream = [Received \<lparr>Event.Type = Added, Object = PodObject (scenario_pod PodPending)\<rparr>,
                Received \<lparr>Event.Type = Modified, Object = PodObject (scenario_pod PodRunning)\<rparr>]\<rparr>"

definition failed_watch :: "ListWatch \<Rightarrow> WatchEnv" where
  "failed_watch lw =
     \<lparr>cache_sync = Synced,
      store = store_of [scenario_pod PodPending],
      stream = [Received \<lparr>Event.Type = Modified, Object = PodObject (scenario_pod PodFailed)\<rparr>,
                ContextDone]\<rparr>"

definition absent_watch :: "ListWatch \<Rightarrow> WatchEnv" where
  "absent_watch lw =
     \<lparr>cache_sync = Synced,
      store = store_of [],
      stream = [ChannelClosed]\<rparr>"

definition scenario_exec :: "error option option \<Rightarrow> ExecRequest \<Rightarrow> ExecEnv" where
  "scenario_exec res req =
     \<lparr>executor_err = None,
      writes = [(StdoutStream, ''a'' @ [CHR 0x0A] @ ''b''), (StderrStream, ''x''),
                (StdoutStream, ''c'' @ [CHR 0x0A] @ ''d'')],
      stream_result = res\<rparr>"

definition refused_exec :: "ExecRequest \<Rightarrow> ExecEnv" where
  "refused_exec req =
     \<lparr>executor_err = Some (ErrorString ''unable to upgrade connection''),
      writes = [],
      stream_result = Some None\<rparr>"

definition fresh_run :: RunWorld where
  "fresh_run = \<lparr>written = [], actions = []\<rparr>"

section \<open>Properties of Setup and Destroy\<close>

lemma call_calls: "call api q w = (e, w') \<Longrightarrow> calls w' = calls w @ [(q, e)]"
  by (auto simp: call_def split: prod.splits)

lemma call_api: "call api q w = (e, w') \<Longrightarrow> api q (platform w) = (e, platform w')"
  by (auto simp: call_def split: prod.splits)

lemma Setup_until_error: "Setup api b spec w = until_error api (setup_requests b spec) w"
  by (cases "PullSecret spec")
     (auto simp: Setup_def setup_requests_def split: prod.splits option.splits)

lemma Destroy_collect_all: "Destroy api spec w = collect_all api (destroy_requests spec) None w"
  by (cases "PullSecret spec")
     (simp_all add: Destroy_def destroy_requests_def DeleteOptions_zero_def int64ptr_def
        split: prod.splits)

lemma until_error_trace:
  "until_error api qs w = (r, w') \<Longrightarrow>
     \<exists>tr. calls w' = calls w @ tr
       \<and> (\<exists>n. map fst tr = take n qs)
       \<and> (\<forall>c \<in> set (butlast tr). snd c = None)
       \<and> (case r of
            None \<Rightarrow> map fst tr = qs \<and> (\<forall>c \<in> set tr. snd c = None)
          | Some err \<Rightarrow> tr \<noteq> [] \<and> snd (last tr) = Some err)
       \<and> replay api (map fst tr) (platform w) = (map snd tr, platform w')"
proof (induction qs arbitrary: w)
  case Nil
  then have "r = None" "w' = w" by simp_all
  then show ?case by (intro exI [of _ "[]"]) simp
next
  case (Cons q qs)
  obtain e w1 where c: "call api q w = (e, w1)" by (cases "call api q w")
  note l = call_calls [OF c]
  note a = call_api [OF c]
  show ?case
  proof (cases e)
    case (Some err)
    with Cons.prems c have "r = Some err" "w' = w1" by auto
    with l a Some show ?thesis
      by (intro exI [of _ "[(q, e)]"]) (auto intro: exI [of _ 1])
  next
    case None
    with Cons.prems c have "until_error api qs w1 = (r, w')" by auto
    from Cons.IH [OF this] obtain tr n where tr:
      "calls w' = calls w1 @ tr" "map fst tr = take n qs"
      "\<forall>c \<in> set (butlast tr). snd c = None"
      "case r of None \<Rightarrow> map fst tr = qs \<and> (\<forall>c \<in> set tr. snd c = None)
          | Some err \<Rightarrow> tr \<noteq> [] \<and> snd (last tr) = Some err"
      "replay api (map fst tr) (platform w1) = (map snd tr, platform w')"
      by blast
    have "replay api (map fst ((q, e) # tr)) (platform w) = (map snd ((q, e) # tr), platform w')"
      using tr(5) a by simp
    moreover
    have "map fst ((q, e) # tr) = take (Suc n) (q # qs)" using tr(2) by simp
    then have "\<exists>n. map fst ((q, e) # tr) = take n (q # qs)" ..
    moreover have "\<forall>c \<in> set (butlast ((q, e) # tr)). snd c = None"
      using tr(3) None by auto
    moreover have "case r of
            None \<Rightarrow> map fst ((q, e) # tr) = q # qs \<and> (\<forall>c \<in> set ((q, e) # tr). snd c = None)
          | Some err \<Rightarrow> (q, e) # tr \<noteq> [] \<and> snd (last ((q, e) # tr)) = Some err"
      using tr(4) None by (auto split: option.splits)
    moreover have "calls w' = calls w @ ((q, e) # tr)" using tr(1) l by simp
    ultimately show ?thesis by (intro exI [of _ "(q, e) # tr"]) simp
  qed
qed

lemma appended_None: "appended result errs = None \<longleftrightarrow> result = None \<and> errs = []"
  unfolding appended_def by (induction errs arbitrary: result) auto


lemma collect_all_trace:
  "collect_all api qs result w = (r, w') \<Longrightarrow>
     \<exists>tr. calls w' = calls w @ tr \<and> map fst tr = qs
        \<and> r = appended result (List.map_filter snd tr)
        \<and> replay api qs (platform w) = (map snd tr, platform w')"
proof (induction qs arbitrary: w result)
  case Nil
  then have "r = result" "w' = w" by simp_all
  then show ?case by (intro exI [of _ "[]"]) (simp add: appended_def)
next
  case (Cons q qs)
  obtain e w1 where c: "call api q w = (e, w1)" by (cases "call api q w")
  note l = call_calls [OF c]
  note a = call_api [OF c]
  define res1 where "res1 = (case e of Some err \<Rightarrow> Some (Append result err) | None \<Rightarrow> result)"
  have "collect result (call api q w) = (res1, w1)"
    by (simp add: c collect_def res1_def split: option.splits)
  with Cons.prems have "collect_all api qs res1 w1 = (r, w')"
    by (simp del: collect_all.simps add: collect_all.simps(2))
  from Cons.IH [OF this] obtain tr where tr:
    "calls w' = calls w1 @ tr" "map fst tr = qs" "r = appended res1 (List.map_filter snd tr)"
    "replay api qs (platform w1) = (map snd tr, platform w')"
    by blast
  have "replay api (q # qs) (platform w) = (map snd ((q, e) # tr), platform w')"
    using tr(4) a by simp
  moreover
  have "r = appended result (List.map_filter snd ((q, e) # tr))"
    using tr(3) by (cases e) (simp_all add: res1_def appended_def)
  moreover have "calls w' = calls w @ ((q, e) # tr)" using tr(1) l by simp
  moreover have "map fst ((q, e) # tr) = q # qs" using tr(2) by simp
  ultimately show ?case by (intro exI [of _ "(q, e) # tr"]) simp
qed

text \<open>
  C1. Setup makes its creation calls in the order pull secret (only when \<open>PullSecret\<close> is
  not nil), environment secret, pod, each through the client of the Spec's namespace. The
  calls made are a prefix of that list; every call but the last returned nil; when Setup
  returns nil all of them were made and returned nil; when it returns an error, that is
  the error of the last call made, so nothing is created after a failure; and no call is a
  deletion. The calls are made on the platform: each logged result is what the platform
  returned to that request in the state the calls before it left, and the platform's
  state after Setup is its state after exactly these calls.
\<close>

theorem Setup_creates_in_order:
  assumes "Setup api b spec w = (r, w')"
  shows "\<exists>tr. calls w' = calls w @ tr
     \<and> (\<exists>n. map fst tr = take n
           ((case PullSecret spec of
               None \<Rightarrow> []
             | Some _ \<Rightarrow> [SecretsCreate (PodSpec.Namespace (PodSpec spec)) (toDockerConfigSecret b spec)])
            @ [SecretsCreate (PodSpec.Namespace (PodSpec spec)) (toSecret b spec),
               PodsCreate (PodSpec.Namespace (PodSpec spec)) (toPod b spec)]))
     \<and> (\<forall>c \<in> set (butlast tr). snd c = None)
     \<and> (case r of
          None \<Rightarrow> (\<forall>c \<in> set tr. snd c = None) \<and> length tr = (if PullSecret spec = None then 2 else 3)
        | Some err \<Rightarrow> tr \<noteq> [] \<and> snd (last tr) = Some err)
     \<and> (\<forall>c \<in> set tr. \<not> is_delete (fst c))
     \<and> replay api (map fst tr) (platform w) = (map snd tr, platform w')"
proof -
  let ?qs = "setup_requests b spec"
  from assms have "until_error api ?qs w = (r, w')" by (simp add: Setup_until_error)
  from until_error_trace [OF this] obtain tr n where tr:
      "calls w' = calls w @ tr" "map fst tr = take n ?qs"
      "\<forall>c \<in> set (butlast tr). snd c = None"
      "case r of None \<Rightarrow> map fst tr = ?qs \<and> (\<forall>c \<in> set tr. snd c = None)
          | Some err \<Rightarrow> tr \<noteq> [] \<and> snd (last tr) = Some err"
      "replay api (map fst tr) (platform w) = (map snd tr, platform w')"
    by blast
  have nd: "\<forall>q \<in> set ?qs. \<not> is_delete q"
    by (auto simp: setup_requests_def split: option.splits)
  have "set (map fst tr) \<subseteq> set ?qs"
    unfolding tr(2) by (rule set_take_subset)
  with nd have nodel: "\<forall>c \<in> set tr. \<not> is_delete (fst c)" by auto
  have res: "case r of
          None \<Rightarrow> (\<forall>c \<in> set tr. snd c = None) \<and> length tr = (if PullSecret spec = None then 2 else 3)
        | Some err \<Rightarrow> tr \<noteq> [] \<and> snd (last tr) = Some err"
  proof (cases r)
    case None
    with tr(4) have m: "map fst tr = ?qs" and a: "\<forall>c \<in> set tr. snd c = None" by auto
    from m have "length (map fst tr) = length ?qs" by simp
    then have "length tr = length ?qs" by simp
    then show ?thesis using None a by (auto simp: setup_requests_def split: option.splits)
  next
    case (Some err)
    with tr(4) show ?thesis by simp
  qed
  have pre: "\<exists>n. map fst tr = take n
           ((case PullSecret spec of
               None \<Rightarrow> []
             | Some _ \<Rightarrow> [SecretsCreate (PodSpec.Namespace (PodSpec spec)) (toDockerConfigSecret b spec)])
            @ [SecretsCreate (PodSpec.Namespace (PodSpec spec)) (toSecret b spec),
               PodsCreate (PodSpec.Namespace (PodSpec spec)) (toPod b spec)])"
    using tr(2) unfolding setup_requests_def ..
  from tr(1) pre tr(3) res nodel tr(5) show ?thesis by (intro exI [of _ tr] conjI)
qed

theorem Setup_creates_in_order_witness:
  "Setup kube spec_builder scenario_spec \<lparr>platform = {(PodKind, ''drone'', ''build-abc123'')}, calls = []\<rparr>
     = (Some (StatusError ''AlreadyExists''),
        \<lparr>platform = {(SecretKind, ''drone'', ''build-abc123''), (PodKind, ''drone'', ''build-abc123'')},
        calls = [(SecretsCreate ''drone'' (toSecret spec_builder scenario_spec), None),
                 (PodsCreate ''drone'' (toPod spec_builder scenario_spec),
                  Some (StatusError ''AlreadyExists''))]\<rparr>)
   \<and> (\<exists>tr. calls (\<lparr>platform = {(SecretKind, ''drone'', ''build-abc123''), (PodKind, ''drone'', ''build-abc123'')},
        calls = [(SecretsCreate ''drone'' (toSecret spec_builder scenario_spec), None),
                 (PodsCreate ''drone'' (toPod spec_builder scenario_spec),
                  Some (StatusError ''AlreadyExists''))]\<rparr>) = calls (\<lparr>platform = {(PodKind, ''drone'', ''build-abc123'')}, calls = []\<rparr>) @ tr
     \<and> (\<exists>n. map fst tr = take n
           ((case PullSecret scenario_spec of
               None \<Rightarrow> []
             | Some _ \<Rightarrow> [SecretsCreate (PodSpec.Namespace (PodSpec scenario_spec)) (toDockerConfigSecret spec_builder scenario_spec)])
            @ [SecretsCreate (PodSpec.Namespace (PodSpec scenario_spec)) (toSecret spec_builder scenario_spec),
               PodsCreate (PodSpec.Namespace (PodSpec scenario_spec)) (toPod spec_builder scenario_spec)]))
     \<and> (\<forall>c \<in> set (butlast tr). snd c = None)
     \<and> (case (Some (StatusError ''AlreadyExists'')) of
          None \<Rightarrow> (\<forall>c \<in> set tr. snd c = None) \<and> length tr = (if PullSecret scenario_spec = None then 2 else 3)
        | Some err \<Rightarrow> tr \<noteq> [] \<and> snd (last tr) = Some err)
     \<and> (\<forall>c \<in> set tr. \<not> is_delete (fst c))
     \<and> replay kube (map fst tr) (platform (\<lparr>platform = {(PodKind, ''drone'', ''build-abc123'')}, calls = []\<rparr>)) = (map snd tr, platform (\<lparr>platform = {(SecretKind, ''drone'', ''build-abc123''), (PodKind, ''drone'', ''build-abc123'')},
        calls = [(SecretsCreate ''drone'' (toSecret spec_builder scenario_spec), None),
                 (PodsCreate ''drone'' (toPod spec_builder scenario_spec),
                  Some (StatusError ''AlreadyExists''))]\<rparr>)))"
proof -
  have h: "Setup kube spec_builder scenario_spec \<lparr>platform = {(PodKind, ''drone'', ''build-abc123'')}, calls = []\<rparr>
     = (Some (StatusError ''AlreadyExists''),
        \<lparr>platform = {(SecretKind, ''drone'', ''build-abc123''), (PodKind, ''drone'', ''build-abc123'')},
        calls = [(SecretsCreate ''drone'' (toSecret spec_builder scenario_spec), None),
                 (PodsCreate ''drone'' (toPod spec_builder scenario_spec),
                  Some (StatusError ''AlreadyExists''))]\<rparr>)"
    by (simp add: Setup_def call_def store_create_def spec_builder_def scenario_spec_def)
  from h Setup_creates_in_order [OF h] show ?thesis by (rule conjI)
qed



text \<open>
  C3. The deletion calls of Destroy are, in this order: the pull secret (only when
  \<open>PullSecret\<close> is not nil), the environment secret, the config map, the pod; the first
  three with empty delete options (the platform's default grace period), the pod with a
  grace period of zero seconds. These requests are what the platform receives, one after
  the other, and what it returns to each is the logged result.
\<close>

theorem Destroy_order_and_grace_period:
  assumes "Destroy api spec w = (r, w')"
  shows "map fst (drop (length (calls w)) (calls w')) =
       (case PullSecret spec of
          None \<Rightarrow> []
        | Some ps \<Rightarrow>
            [SecretsDelete (PodSpec.Namespace (PodSpec spec)) (Secret.Name ps)
               \<lparr>GracePeriodSeconds = None\<rparr>])
       @ [SecretsDelete (PodSpec.Namespace (PodSpec spec)) (PodSpec.Name (PodSpec spec))
            \<lparr>GracePeriodSeconds = None\<rparr>,
          ConfigMapsDelete (PodSpec.Namespace (PodSpec spec)) (PodSpec.Name (PodSpec spec))
            \<lparr>GracePeriodSeconds = None\<rparr>,
          PodsDelete (PodSpec.Namespace (PodSpec spec)) (PodSpec.Name (PodSpec spec))
            \<lparr>GracePeriodSeconds = Some 0\<rparr>]
     \<and> take (length (calls w)) (calls w') = calls w
     \<and> replay api (map fst (drop (length (calls w)) (calls w'))) (platform w)
         = (map snd (drop (length (calls w)) (calls w')), platform w')"
proof -
  from assms have "collect_all api (destroy_requests spec) None w = (r, w')"
    by (simp add: Destroy_collect_all)
  from collect_all_trace [OF this] obtain tr where tr:
    "calls w' = calls w @ tr" "map fst tr = destroy_requests spec"
    "replay api (destroy_requests spec) (platform w) = (map snd tr, platform w')"
    by blast
  from tr(2,3) have "replay api (map fst tr) (platform w) = (map snd tr, platform w')"
    by simp
  with tr(1,2) show ?thesis by (simp add: destroy_requests_def)
qed

theorem Destroy_order_and_grace_period_witness:
  "Destroy kube scenario_spec \<lparr>platform = {(PodKind, ''drone'', ''build-abc123'')}, calls = []\<rparr>
     = ((Some (MultiError [StatusError ''NotFound'', StatusError ''NotFound''])),
        \<lparr>platform = ({} :: cluster),
        calls = [(SecretsDelete ''drone'' ''build-abc123'' \<lparr>GracePeriodSeconds = None\<rparr>,
                  Some (StatusError ''NotFound'')),
                 (ConfigMapsDelete ''drone'' ''build-abc123'' \<lparr>GracePeriodSeconds = None\<rparr>,
                  Some (StatusError ''NotFound'')),
                 (PodsDelete ''drone'' ''build-abc123'' \<lparr>GracePeriodSeconds = Some 0\<rparr>, None)]\<rparr>)
   \<and> (map fst (drop (length (calls (\<lparr>platform = {(PodKind, ''drone'', ''build-abc123'')}, calls = []\<rparr>))) (calls (\<lparr>platform = ({} :: cluster),
        calls = [(SecretsDelete ''drone'' ''build-abc123'' \<lparr>GracePeriodSeconds = None\<rparr>,
                  Some (StatusError ''NotFound'')),
                 (ConfigMapsDelete ''drone'' ''build-abc123'' \<lparr>GracePeriodSeconds = None\<rparr>,
                  Some (StatusError ''NotFound'')),
                 (PodsDelete ''drone'' ''build-abc123'' \<lparr>GracePeriodSeconds = Some 0\<rparr>, None)]\<rparr>))) =
       (case PullSecret scenario_spec of
          None \<Rightarrow> []
        | Some ps \<Rightarrow>
            [SecretsDelete (PodSpec.Namespace (PodSpec scenario_spec)) (Secret.Name ps)
               \<lparr>GracePeriodSeconds = None\<rparr>])
       @ [SecretsDelete (PodSpec.Namespace (PodSpec scenario_spec)) (PodSpec.Name (PodSpec scenario_spec))
            \<lparr>GracePeriodSeconds = None\<rparr>,
          ConfigMapsDelete (PodSpec.Namespace (PodSpec scenario_spec)) (PodSpec.Name (PodSpec scenario_spec))
            \<lparr>GracePeriodSeconds = None\<rparr>,
          PodsDelete (PodSpec.Namespace (PodSpec scenario_spec)) (PodSpec.Name (PodSpec scenario_spec))
            \<lparr>GracePeriodSeconds = Some 0\<rparr>]
     \<and> take (length (calls (\<lparr>platform = {(PodKind, ''drone'', ''build-abc123'')}, calls = []\<rparr>))) (calls (\<lparr>platform = ({} :: cluster),
        calls = [(SecretsDelete ''drone'' ''build-abc123'' \<lparr>GracePeriodSeconds = None\<rparr>,
                  Some (StatusError ''NotFound'')),
                 (ConfigMapsDelete ''drone'' ''build-abc123'' \<lparr>GracePeriodSeconds = None\<rparr>,
                  Some (StatusError ''NotFound'')),
                 (PodsDelete ''drone'' ''build-abc123'' \<lparr>GracePeriodSeconds = Some 0\<rparr>, None)]\<rparr>)) = calls (\<lparr>platform = {(PodKind, ''drone'', ''build-abc123'')}, calls = []\<rparr>)
     \<and> replay kube (map fst (drop (length (calls (\<lparr>platform = {(PodKind, ''drone'', ''build-abc123'')}, calls = []\<rparr>))) (calls (\<lparr>platform = ({} :: cluster),
        calls = [(SecretsDelete ''drone'' ''build-abc123'' \<lparr>GracePeriodSeconds = None\<rparr>,
                  Some (StatusError ''NotFound'')),
                 (ConfigMapsDelete ''drone'' ''build-abc123'' \<lparr>GracePeriodSeconds = None\<rparr>,
                  Some (StatusError ''NotFound'')),
                 (PodsDelete ''drone'' ''build-abc123'' \<lparr>GracePeriodSeconds = Some 0\<rparr>, None)]\<rparr>)))) (platform (\<lparr>platform = {(PodKind, ''drone'', ''build-abc123'')}, calls = []\<rparr>))
         = (map snd (drop (length (calls (\<lparr>platform = {(PodKind, ''drone'', ''build-abc123'')}, calls = []\<rparr>))) (calls (\<lparr>platform = ({} :: cluster),
        calls = [(SecretsDelete ''drone'' ''build-abc123'' \<lparr>GracePeriodSeconds = None\<rparr>,
                  Some (StatusError ''NotFound'')),
                 (ConfigMapsDelete ''drone'' ''build-abc123'' \<lparr>GracePeriodSeconds = None\<rparr>,
                  Some (StatusError ''NotFound'')),
                 (PodsDelete ''drone'' ''build-abc123'' \<lparr>GracePeriodSeconds = Some 0\<rparr>, None)]\<rparr>))), platform (\<lparr>platform = ({} :: cluster),
        calls = [(SecretsDelete ''drone'' ''build-abc123'' \<lparr>GracePeriodSeconds = None\<rparr>,
                  Some (StatusError ''NotFound'')),
                 (ConfigMapsDelete ''drone'' ''build-abc123'' \<lparr>GracePeriodSeconds = None\<rparr>,
                  Some (StatusError ''NotFound'')),
                 (PodsDelete ''drone'' ''build-abc123'' \<lparr>GracePeriodSeconds = Some 0\<rparr>, None)]\<rparr>)))"
proof -
  have h: "Destroy kube scenario_spec \<lparr>platform = {(PodKind, ''drone'', ''build-abc123'')}, calls = []\<rparr>
     = ((Some (MultiError [StatusError ''NotFound'', StatusError ''NotFound''])),
        \<lparr>platform = ({} :: cluster),
        calls = [(SecretsDelete ''drone'' ''build-abc123'' \<lparr>GracePeriodSeconds = None\<rparr>,
                  Some (StatusError ''NotFound'')),
                 (ConfigMapsDelete ''drone'' ''build-abc123'' \<lparr>GracePeriodSeconds = None\<rparr>,
                  Some (StatusError ''NotFound'')),
                 (PodsDelete ''drone'' ''build-abc123'' \<lparr>GracePeriodSeconds = Some 0\<rparr>, None)]\<rparr>)"
    by (simp add: Destroy_def collect_def call_def store_delete_def Append_def DeleteOptions_zero_def int64ptr_def scenario_spec_def scenario_spec_pull_def)
  from h Destroy_order_and_grace_period [OF h] show ?thesis by (rule conjI)
qed


section \<open>Setup followed by Destroy\<close>

lemma kube_keeps_config_maps:
  "\<not> is_delete q \<Longrightarrow> kube q c = (e, c') \<Longrightarrow> (ConfigMapKind, ns, n) \<in> c' \<longleftrightarrow> (ConfigMapKind, ns, n) \<in> c"
  by (cases q) (auto simp: store_create_def split: if_splits)

lemma until_error_keeps_config_maps:
  "\<forall>q \<in> set qs. \<not> is_delete q \<Longrightarrow> until_error kube qs w = (r, w') \<Longrightarrow>
     (ConfigMapKind, ns, n) \<in> platform w' \<longleftrightarrow> (ConfigMapKind, ns, n) \<in> platform w"
proof (induction qs arbitrary: w)
  case Nil
  then show ?case by simp
next
  case (Cons q qs)
  obtain e c1 where k: "kube q (platform w) = (e, c1)" by (cases "kube q (platform w)")
  then have c: "call kube q w = (e, \<lparr>platform = c1, calls = calls w @ [(q, e)]\<rparr>)"
    by (simp add: call_def)
  from Cons.prems(1) have nq: "\<not> is_delete q" and nqs: "\<forall>q \<in> set qs. \<not> is_delete q" by simp_all
  note keep = kube_keeps_config_maps [OF nq k, of ns n]
  show ?case
  proof (cases e)
    case None
    with Cons.prems(2) c
    have "until_error kube qs \<lparr>platform = c1, calls = calls w @ [(q, e)]\<rparr> = (r, w')" by simp
    from Cons.IH [OF nqs this] keep show ?thesis by simp
  next
    case (Some err)
    with Cons.prems(2) c have "platform w' = c1" by auto
    with keep show ?thesis by simp
  qed
qed

lemma Setup_keeps_config_maps:
  assumes "Setup kube b spec w = (r, w')"
  shows "(ConfigMapKind, ns, n) \<in> platform w' \<longleftrightarrow> (ConfigMapKind, ns, n) \<in> platform w"
proof -
  have "\<forall>q \<in> set (setup_requests b spec). \<not> is_delete q"
    by (auto simp: setup_requests_def split: option.splits)
  moreover from assms have "until_error kube (setup_requests b spec) w = (r, w')"
    by (simp add: Setup_until_error)
  ultimately show ?thesis by (rule until_error_keeps_config_maps)
qed


lemma store_delete_absent:
  "(ConfigMapKind, ns, n) \<notin> c \<Longrightarrow> store_delete ConfigMapKind ns n c = (Some (StatusError ''NotFound''), c)"
  by (simp add: store_delete_def)

lemma store_delete_other:
  "k \<noteq> ConfigMapKind \<Longrightarrow> (ConfigMapKind, ns, n) \<notin> c \<Longrightarrow>
     (ConfigMapKind, ns, n) \<notin> snd (store_delete k ns' n' c)"
  by (simp add: store_delete_def)

lemma collect_all_config_map:
  assumes "(ConfigMapKind, ns, n) \<notin> platform w"
      and "collect_all kube (pre @ [ConfigMapsDelete ns n opts] @ post) result w = (r, w')"
      and "\<forall>q \<in> set pre. \<exists>ns' n' opts'. q = SecretsDelete ns' n' opts'"
  shows "r \<noteq> None \<and> (ConfigMapsDelete ns n opts, Some (StatusError ''NotFound'')) \<in> set (calls w')"
  using assms
proof (induction pre arbitrary: w result)
  case Nil
  let ?w1 = "\<lparr>platform = platform w, calls = calls w @ [(ConfigMapsDelete ns n opts, Some (StatusError ''NotFound''))]\<rparr>"
  from Nil(1) have c: "call kube (ConfigMapsDelete ns n opts) w = (Some (StatusError ''NotFound''), ?w1)"
    by (simp add: call_def store_delete_absent)
  with Nil(2) have "collect_all kube post (Some (Append result (StatusError ''NotFound''))) ?w1 = (r, w')"
    by (simp add: collect_def)
  from collect_all_trace [OF this] obtain tr where
    "calls w' = calls ?w1 @ tr"
    "r = appended (Some (Append result (StatusError ''NotFound''))) (List.map_filter snd tr)"
    by blast
  then show ?case using appended_None [of "Some (Append result (StatusError ''NotFound''))" "List.map_filter snd tr"]
    by auto
next
  case (Cons q pre)
  from Cons.prems(3) obtain ns' n' opts' where q: "q = SecretsDelete ns' n' opts'" by auto
  obtain e c1 where k: "store_delete SecretKind ns' n' (platform w) = (e, c1)"
    by (cases "store_delete SecretKind ns' n' (platform w)")
  with store_delete_other [of SecretKind ns n "platform w" ns' n'] Cons.prems(1)
  have a: "(ConfigMapKind, ns, n) \<notin> c1" by simp
  let ?w1 = "\<lparr>platform = c1, calls = calls w @ [(q, e)]\<rparr>"
  from k q have c: "call kube q w = (e, ?w1)" by (simp add: call_def)
  obtain res1 where "collect result (call kube q w) = (res1, ?w1)"
    by (cases e) (simp_all add: c collect_def)
  with Cons.prems(2)
  have ca: "collect_all kube (pre @ [ConfigMapsDelete ns n opts] @ post) res1 ?w1 = (r, w')" by simp
  have "(ConfigMapKind, ns, n) \<notin> platform ?w1" using a by simp
  moreover note ca
  moreover have "\<forall>q \<in> set pre. \<exists>ns' n' opts'. q = SecretsDelete ns' n' opts'"
    using Cons.prems(3) by simp
  ultimately show ?case by (rule Cons.IH)
qed

lemma Destroy_config_map_absent:
  assumes "(ConfigMapKind, PodSpec.Namespace (PodSpec spec), PodSpec.Name (PodSpec spec)) \<notin> platform w"
      and "Destroy kube spec w = (r, w')"
  shows "r \<noteq> None
       \<and> (ConfigMapsDelete (PodSpec.Namespace (PodSpec spec)) (PodSpec.Name (PodSpec spec))
            \<lparr>GracePeriodSeconds = None\<rparr>, Some (StatusError ''NotFound'')) \<in> set (calls w')"
proof -
  let ?ns = "PodSpec.Namespace (PodSpec spec)" and ?n = "PodSpec.Name (PodSpec spec)"
  define pre where "pre = (case PullSecret spec of
        None \<Rightarrow> []
      | Some ps \<Rightarrow> [SecretsDelete ?ns (Secret.Name ps) \<lparr>GracePeriodSeconds = None\<rparr>])
     @ [SecretsDelete ?ns ?n \<lparr>GracePeriodSeconds = None\<rparr>]"
  have d: "destroy_requests spec = pre @ [ConfigMapsDelete ?ns ?n \<lparr>GracePeriodSeconds = None\<rparr>]
             @ [PodsDelete ?ns ?n \<lparr>GracePeriodSeconds = Some 0\<rparr>]"
    by (simp add: destroy_requests_def pre_def)
  have p: "\<forall>q \<in> set pre. \<exists>ns' n' opts'. q = SecretsDelete ns' n' opts'"
    by (auto simp: pre_def split: option.splits)
  from assms(2) have "collect_all kube (destroy_requests spec) None w = (r, w')"
    by (simp add: Destroy_collect_all)
  then have "collect_all kube (pre @ [ConfigMapsDelete ?ns ?n \<lparr>GracePeriodSeconds = None\<rparr>]
             @ [PodsDelete ?ns ?n \<lparr>GracePeriodSeconds = Some 0\<rparr>]) None w = (r, w')"
    unfolding d .
  from collect_all_config_map [OF assms(1) this p] show ?thesis .
qed

text \<open>
  C4, as the code has it. Setup makes no call for a config map, and Destroy asks the
  platform to delete one under the Spec's name. On a platform that does not hold that
  config map before Setup, the object store answers Destroy's request with \<open>NotFound\<close>,
  whatever Setup returned, and Destroy returns an error, not nil. In the spec's scenario
  Setup succeeds, Destroy deletes the secret and the pod that Setup created and leaves the
  store empty, and it returns the combined error that holds the config map's \<open>NotFound\<close>.
\<close>

theorem Destroy_after_Setup_reports_config_map:
  assumes "(ConfigMapKind, PodSpec.Namespace (PodSpec spec), PodSpec.Name (PodSpec spec)) \<notin> platform w"
      and "Setup kube b spec w = (r, w1)"
      and "Destroy kube spec w1 = (r', w2)"
  shows "r' \<noteq> None
       \<and> (ConfigMapsDelete (PodSpec.Namespace (PodSpec spec)) (PodSpec.Name (PodSpec spec))
            \<lparr>GracePeriodSeconds = None\<rparr>, Some (StatusError ''NotFound'')) \<in> set (calls w2)"
proof -
  from Setup_keeps_config_maps [OF assms(2)] assms(1)
  have "(ConfigMapKind, PodSpec.Namespace (PodSpec spec), PodSpec.Name (PodSpec spec)) \<notin> platform w1" by simp
  from Destroy_config_map_absent [OF this assms(3)] show ?thesis .
qed

theorem Destroy_after_Setup_reports_config_map_witness:
  "(ConfigMapKind, PodSpec.Namespace (PodSpec scenario_spec), PodSpec.Name (PodSpec scenario_spec)) \<notin> platform empty_world
   \<and> Setup kube spec_builder scenario_spec empty_world
       = (None,
          \<lparr>platform = {(PodKind, ''drone'', ''build-abc123''), (SecretKind, ''drone'', ''build-abc123'')},
         calls = [(SecretsCreate ''drone'' (toSecret spec_builder scenario_spec), None),
                  (PodsCreate ''drone'' (toPod spec_builder scenario_spec), None)]\<rparr>)
   \<and> Destroy kube scenario_spec
          \<lparr>platform = {(PodKind, ''drone'', ''build-abc123''), (SecretKind, ''drone'', ''build-abc123'')},
         calls = [(SecretsCreate ''drone'' (toSecret spec_builder scenario_spec), None),
                  (PodsCreate ''drone'' (toPod spec_builder scenario_spec), None)]\<rparr>
       = (Some (MultiError [StatusError ''NotFound'']),
          \<lparr>platform = ({} :: cluster),
         calls = [(SecretsCreate ''drone'' (toSecret spec_builder scenario_spec), None),
                  (PodsCreate ''drone'' (toPod spec_builder scenario_spec), None),
                  (SecretsDelete ''drone'' ''build-abc123'' \<lparr>GracePeriodSeconds = None\<rparr>, None),
                  (ConfigMapsDelete ''drone'' ''build-abc123'' \<lparr>GracePeriodSeconds = None\<rparr>,
                   Some (StatusError ''NotFound'')),
                  (PodsDelete ''drone'' ''build-abc123'' \<lparr>GracePeriodSeconds = Some 0\<rparr>, None)]\<rparr>)
   \<and> (Some (MultiError [StatusError ''NotFound'']) \<noteq> None
       \<and> (ConfigMapsDelete (PodSpec.Namespace (PodSpec scenario_spec)) (PodSpec.Name (PodSpec scenario_spec))
            \<lparr>GracePeriodSeconds = None\<rparr>, Some (StatusError ''NotFound'')) \<in> set (calls (\<lparr>platform = ({} :: cluster),
         calls = [(SecretsCreate ''drone'' (toSecret spec_builder scenario_spec), None),
                  (PodsCreate ''drone'' (toPod spec_builder scenario_spec), None),
                  (SecretsDelete ''drone'' ''build-abc123'' \<lparr>GracePeriodSeconds = None\<rparr>, None),
                  (ConfigMapsDelete ''drone'' ''build-abc123'' \<lparr>GracePeriodSeconds = None\<rparr>,
                   Some (StatusError ''NotFound'')),
                  (PodsDelete ''drone'' ''build-abc123'' \<lparr>GracePeriodSeconds = Some 0\<rparr>, None)]\<rparr>)))"
proof -
  have h1: "(ConfigMapKind, PodSpec.Namespace (PodSpec scenario_spec), PodSpec.Name (PodSpec scenario_spec)) \<notin> platform empty_world"
    by (simp add: empty_world_def)
  have h2: "Setup kube spec_builder scenario_spec empty_world
       = (None,
          \<lparr>platform = {(PodKind, ''drone'', ''build-abc123''), (SecretKind, ''drone'', ''build-abc123'')},
         calls = [(SecretsCreate ''drone'' (toSecret spec_builder scenario_spec), None),
                  (PodsCreate ''drone'' (toPod spec_builder scenario_spec), None)]\<rparr>)"
    by (simp add: Setup_def call_def store_create_def spec_builder_def scenario_spec_def
          empty_world_def)
  have h3: "Destroy kube scenario_spec
          \<lparr>platform = {(PodKind, ''drone'', ''build-abc123''), (SecretKind, ''drone'', ''build-abc123'')},
         calls = [(SecretsCreate ''drone'' (toSecret spec_builder scenario_spec), None),
                  (PodsCreate ''drone'' (toPod spec_builder scenario_spec), None)]\<rparr>
       = (Some (MultiError [StatusError ''NotFound'']),
          \<lparr>platform = ({} :: cluster),
         calls = [(SecretsCreate ''drone'' (toSecret spec_builder scenario_spec), None),
                  (PodsCreate ''drone'' (toPod spec_builder scenario_spec), None),
                  (SecretsDelete ''drone'' ''build-abc123'' \<lparr>GracePeriodSeconds = None\<rparr>, None),
                  (ConfigMapsDelete ''drone'' ''build-abc123'' \<lparr>GracePeriodSeconds = None\<rparr>,
                   Some (StatusError ''NotFound'')),
                  (PodsDelete ''drone'' ''build-abc123'' \<lparr>GracePeriodSeconds = Some 0\<rparr>, None)]\<rparr>)"
    by (simp add: insert_Diff_if Destroy_def collect_def call_def store_delete_def Append_def
          DeleteOptions_zero_def int64ptr_def spec_builder_def scenario_spec_def)
  note c = Destroy_after_Setup_reports_config_map [OF h1 h2 h3]
  show ?thesis by (rule conjI [OF h1 conjI [OF h2 conjI [OF h3 c]]])
qed

section \<open>Properties of the wait\<close>

lemma conditionFunc_cases:
  "conditionFunc spec e = (True, None) \<or> conditionFunc spec e = (False, None)"
  by (cases "Event.Object e") (auto simp: conditionFunc_def)

lemma UntilWithoutRetry_skip:
  "\<forall>x \<in> set es. conditionFunc spec x \<noteq> (True, None) \<Longrightarrow>
     UntilWithoutRetry (conditionFunc spec) (map Received es @ after)
       = UntilWithoutRetry (conditionFunc spec) after"
proof (induction es)
  case Nil
  then show ?case by simp
next
  case (Cons x es)
  then have "conditionFunc spec x = (False, None)"
    using conditionFunc_cases [of spec x] by auto
  with Cons show ?case by simp
qed

lemma waitForReady_present:
  assumes "cache_sync (watch \<lparr>ListWatch.Namespace = PodSpec.Namespace (PodSpec spec),
                               LabelSelector = ''io.drone.name='' @ PodSpec.Name (PodSpec spec)\<rparr>) = Synced"
      and "snd (store (watch \<lparr>ListWatch.Namespace = PodSpec.Namespace (PodSpec spec),
                               LabelSelector = ''io.drone.name='' @ PodSpec.Name (PodSpec spec)\<rparr>)
                  \<lparr>ObjectMeta.Name = PodSpec.Name (PodSpec spec),
                   ObjectMeta.Namespace = PodSpec.Namespace (PodSpec spec)\<rparr>) = (True, None)"
  shows "waitForReady watch spec step
       = UntilWithoutRetry (conditionFunc spec)
           (stream (watch \<lparr>ListWatch.Namespace = PodSpec.Namespace (PodSpec spec),
                               LabelSelector = ''io.drone.name='' @ PodSpec.Name (PodSpec spec)\<rparr>))"
  using assms
  by (auto simp: waitForReady_def waitFor_def UntilWithSync_def preconditionFunc_def Let_def
        split: prod.splits)


text \<open>
  C5. The readiness condition accepts an event exactly when its type is \<open>Added\<close> or
  \<open>Modified\<close>, its object is a pod with the Spec's name, and the pod's phase is
  \<open>PodRunning\<close>. It rejects every other event, without an error, and the watch loop then
  goes on with the rest of the stream; on an accepted event the loop returns nil. A
  \<open>Deleted\<close> event, a pod of another name and the phases \<open>PodFailed\<close> and \<open>PodSucceeded\<close>
  are rejected. This is the condition \<open>waitForReady\<close> waits with: when the cache has
  synced and the store holds the Spec's pod, \<open>waitForReady\<close> passes over any stretch of
  rejected events; after them it returns nil at an accepted event with the rest of the
  stream unread, returns the timeout error when the context is done, returns the
  watch-closed error when the channel is closed, and does not return when nothing more
  arrives.
\<close>

theorem readiness_predicate:
  "(conditionFunc spec e = (True, None) \<longleftrightarrow>
      (Event.Type e = Added \<or> Event.Type e = Modified)
      \<and> (\<exists>pod. Event.Object e = PodObject pod
             \<and> ObjectMeta.Name pod = PodSpec.Name (PodSpec spec)
             \<and> Phase (Status pod) = PodRunning))
   \<and> (conditionFunc spec e \<noteq> (True, None) \<longrightarrow>
        conditionFunc spec e = (False, None)
        \<and> UntilWithoutRetry (conditionFunc spec) (Received e # rest)
            = UntilWithoutRetry (conditionFunc spec) rest)
   \<and> (conditionFunc spec e = (True, None) \<longrightarrow>
        UntilWithoutRetry (conditionFunc spec) (Received e # rest) = Some (None, rest))
   \<and> (Event.Type e = Deleted \<longrightarrow> conditionFunc spec e = (False, None))
   \<and> (\<forall>pod. Event.Object e = PodObject pod
          \<and> (ObjectMeta.Name pod \<noteq> PodSpec.Name (PodSpec spec)
             \<or> Phase (Status pod) = PodFailed \<or> Phase (Status pod) = PodSucceeded)
        \<longrightarrow> conditionFunc spec e = (False, None))
   \<and> (\<forall>es after.
          cache_sync (watch \<lparr>ListWatch.Namespace = PodSpec.Namespace (PodSpec spec),
                               LabelSelector = ''io.drone.name='' @ PodSpec.Name (PodSpec spec)\<rparr>) = Synced
        \<and> snd (store (watch \<lparr>ListWatch.Namespace = PodSpec.Namespace (PodSpec spec),
                               LabelSelector = ''io.drone.name='' @ PodSpec.Name (PodSpec spec)\<rparr>)
                  \<lparr>ObjectMeta.Name = PodSpec.Name (PodSpec spec),
                   ObjectMeta.Namespace = PodSpec.Namespace (PodSpec spec)\<rparr>) = (True, None)
        \<and> stream (watch \<lparr>ListWatch.Namespace = PodSpec.Namespace (PodSpec spec),
                               LabelSelector = ''io.drone.name='' @ PodSpec.Name (PodSpec spec)\<rparr>)
            = map Received es @ after
        \<and> (\<forall>x \<in> set es. conditionFunc spec x \<noteq> (True, None))
        \<longrightarrow>
          (after = [] \<longrightarrow> waitForReady watch spec step = None)
        \<and> (\<forall>a more. after = Received a # more \<and> conditionFunc spec a = (True, None) \<longrightarrow>
              waitForReady watch spec step = Some (None, more))
        \<and> (\<forall>more. after = ContextDone # more \<longrightarrow>
              waitForReady watch spec step = Some (Some ErrWaitTimeout, more))
        \<and> (\<forall>more. after = ChannelClosed # more \<longrightarrow>
              waitForReady watch spec step = Some (Some ErrWatchClosed, more)))"
proof -
  have p: "(conditionFunc spec e = (True, None) \<longleftrightarrow>
      (Event.Type e = Added \<or> Event.Type e = Modified)
      \<and> (\<exists>pod. Event.Object e = PodObject pod
             \<and> ObjectMeta.Name pod = PodSpec.Name (PodSpec spec)
             \<and> Phase (Status pod) = PodRunning))
   \<and> (conditionFunc spec e \<noteq> (True, None) \<longrightarrow>
        conditionFunc spec e = (False, None)
        \<and> UntilWithoutRetry (conditionFunc spec) (Received e # rest)
            = UntilWithoutRetry (conditionFunc spec) rest)
   \<and> (conditionFunc spec e = (True, None) \<longrightarrow>
        UntilWithoutRetry (conditionFunc spec) (Received e # rest) = Some (None, rest))
   \<and> (Event.Type e = Deleted \<longrightarrow> conditionFunc spec e = (False, None))
   \<and> (\<forall>pod. Event.Object e = PodObject pod
          \<and> (ObjectMeta.Name pod \<noteq> PodSpec.Name (PodSpec spec)
             \<or> Phase (Status pod) = PodFailed \<or> Phase (Status pod) = PodSucceeded)
        \<longrightarrow> conditionFunc spec e = (False, None))"
    by (cases "Event.Object e")
       (auto simp: conditionFunc_def Added_def Modified_def Deleted_def
          PodRunning_def PodFailed_def PodSucceeded_def)
  have w: "\<forall>es after.
          cache_sync (watch \<lparr>ListWatch.Namespace = PodSpec.Namespace (PodSpec spec),
                               LabelSelector = ''io.drone.name='' @ PodSpec.Name (PodSpec spec)\<rparr>) = Synced
        \<and> snd (store (watch \<lparr>ListWatch.Namespace = PodSpec.Namespace (PodSpec spec),
                               LabelSelector = ''io.drone.name='' @ PodSpec.Name (PodSpec spec)\<rparr>)
                  \<lparr>ObjectMeta.Name = PodSpec.Name (PodSpec spec),
                   ObjectMeta.Namespace = PodSpec.Namespace (PodSpec spec)\<rparr>) = (True, None)
        \<and> stream (watch \<lparr>ListWatch.Namespace = PodSpec.Namespace (PodSpec spec),
                               LabelSelector = ''io.drone.name='' @ PodSpec.Name (PodSpec spec)\<rparr>)
            = map Received es @ after
        \<and> (\<forall>x \<in> set es. conditionFunc spec x \<noteq> (True, None))
        \<longrightarrow>
          (after = [] \<longrightarrow> waitForReady watch spec step = None)
        \<and> (\<forall>a more. after = Received a # more \<and> conditionFunc spec a = (True, None) \<longrightarrow>
              waitForReady watch spec step = Some (None, more))
        \<and> (\<forall>more. after = ContextDone # more \<longrightarrow>
              waitForReady watch spec step = Some (Some ErrWaitTimeout, more))
        \<and> (\<forall>more. after = ChannelClosed # more \<longrightarrow>
              waitForReady watch spec step = Some (Some ErrWatchClosed, more))"
  proof (intro allI impI, elim conjE)
    fix es after
    let ?lw = "\<lparr>ListWatch.Namespace = PodSpec.Namespace (PodSpec spec),
                 LabelSelector = ''io.drone.name='' @ PodSpec.Name (PodSpec spec)\<rparr>"
    assume s: "cache_sync (watch ?lw) = Synced"
      and g: "snd (store (watch ?lw)
                  \<lparr>ObjectMeta.Name = PodSpec.Name (PodSpec spec),
                   ObjectMeta.Namespace = PodSpec.Namespace (PodSpec spec)\<rparr>) = (True, None)"
      and st: "stream (watch ?lw) = map Received es @ after"
      and rej: "\<forall>x \<in> set es. conditionFunc spec x \<noteq> (True, None)"
    have "waitForReady watch spec step = UntilWithoutRetry (conditionFunc spec) (map Received es @ after)"
      using waitForReady_present [where watch = watch and spec = spec and step = step, OF s g] st
      by simp
    with UntilWithoutRetry_skip [OF rej, of after]
    have "waitForReady watch spec step = UntilWithoutRetry (conditionFunc spec) after" by simp
    then show "(after = [] \<longrightarrow> waitForReady watch spec step = None)
        \<and> (\<forall>a more. after = Received a # more \<and> conditionFunc spec a = (True, None) \<longrightarrow>
              waitForReady watch spec step = Some (None, more))
        \<and> (\<forall>more. after = ContextDone # more \<longrightarrow>
              waitForReady watch spec step = Some (Some ErrWaitTimeout, more))
        \<and> (\<forall>more. after = ChannelClosed # more \<longrightarrow>
              waitForReady watch spec step = Some (Some ErrWatchClosed, more))"
      by auto
  qed
  from p w show ?thesis by (intro conjI) blast+
qed

theorem readiness_predicate_witness:
  "conditionFunc scenario_spec
       \<lparr>Event.Type = Modified, Object = PodObject (scenario_pod PodFailed)\<rparr> \<noteq> (True, None)
   \<and> conditionFunc scenario_spec
       \<lparr>Event.Type = Modified, Object = PodObject (scenario_pod PodFailed)\<rparr> = (False, None)
   \<and> UntilWithoutRetry (conditionFunc scenario_spec)
        [Received \<lparr>Event.Type = Modified, Object = PodObject (scenario_pod PodFailed)\<rparr>, ContextDone]
       = Some (Some ErrWaitTimeout, [])
   \<and> conditionFunc scenario_spec
       \<lparr>Event.Type = Added, Object = PodObject (scenario_pod PodRunning)\<rparr> = (True, None)
   \<and> cache_sync (failed_watch \<lparr>ListWatch.Namespace = PodSpec.Namespace (PodSpec scenario_spec),
         LabelSelector = ''io.drone.name='' @ PodSpec.Name (PodSpec scenario_spec)\<rparr>) = Synced
   \<and> snd (store (failed_watch \<lparr>ListWatch.Namespace = PodSpec.Namespace (PodSpec scenario_spec),
         LabelSelector = ''io.drone.name='' @ PodSpec.Name (PodSpec scenario_spec)\<rparr>)
           \<lparr>ObjectMeta.Name = PodSpec.Name (PodSpec scenario_spec),
            ObjectMeta.Namespace = PodSpec.Namespace (PodSpec scenario_spec)\<rparr>) = (True, None)
   \<and> stream (failed_watch \<lparr>ListWatch.Namespace = PodSpec.Namespace (PodSpec scenario_spec),
         LabelSelector = ''io.drone.name='' @ PodSpec.Name (PodSpec scenario_spec)\<rparr>)
       = map Received [\<lparr>Event.Type = Modified, Object = PodObject (scenario_pod PodFailed)\<rparr>]
         @ [ContextDone]
   \<and> waitForReady failed_watch scenario_spec scenario_step = Some (Some ErrWaitTimeout, [])"
proof -
  let ?e = "\<lparr>Event.Type = Modified, Object = PodObject (scenario_pod PodFailed)\<rparr>"
  let ?r = "\<lparr>Event.Type = Added, Object = PodObject (scenario_pod PodRunning)\<rparr>"
  let ?lw = "\<lparr>ListWatch.Namespace = PodSpec.Namespace (PodSpec scenario_spec),
         LabelSelector = ''io.drone.name='' @ PodSpec.Name (PodSpec scenario_spec)\<rparr>"
  have h: "conditionFunc scenario_spec ?e \<noteq> (True, None)"
    by (simp add: conditionFunc_def Added_def Modified_def PodRunning_def PodFailed_def
          scenario_pod_def scenario_spec_def)
  have a: "(Event.Type ?r = Added \<or> Event.Type ?r = Modified)
      \<and> (\<exists>pod. Event.Object ?r = PodObject pod
             \<and> ObjectMeta.Name pod = PodSpec.Name (PodSpec scenario_spec)
             \<and> Phase (Status pod) = PodRunning)"
    by (simp add: scenario_pod_def scenario_spec_def)
  have s: "cache_sync (failed_watch ?lw) = Synced"
    by (simp add: failed_watch_def)
  have g: "snd (store (failed_watch ?lw)
           \<lparr>ObjectMeta.Name = PodSpec.Name (PodSpec scenario_spec),
            ObjectMeta.Namespace = PodSpec.Namespace (PodSpec scenario_spec)\<rparr>) = (True, None)"
    by (simp add: failed_watch_def store_of_def scenario_pod_def scenario_spec_def)
  have st: "stream (failed_watch ?lw) = map Received [?e] @ [ContextDone]"
    by (simp add: failed_watch_def)
  have rej: "\<forall>x \<in> set [?e]. conditionFunc scenario_spec x \<noteq> (True, None)"
    using h by simp
  note t = readiness_predicate [where spec = scenario_spec and e = ?e and rest = "[ContextDone]"
             and watch = failed_watch and step = scenario_step]
  from t h
  have "conditionFunc scenario_spec ?e = (False, None)"
    and "UntilWithoutRetry (conditionFunc scenario_spec) [Received ?e, ContextDone]
          = UntilWithoutRetry (conditionFunc scenario_spec) [ContextDone]"
    by blast+
  moreover from readiness_predicate [where spec = scenario_spec and e = ?r and rest = "[]"
             and watch = failed_watch and step = scenario_step] a
  have "conditionFunc scenario_spec ?r = (True, None)" by blast
  moreover from t
  have "cache_sync (failed_watch ?lw) = Synced
        \<and> snd (store (failed_watch ?lw)
           \<lparr>ObjectMeta.Name = PodSpec.Name (PodSpec scenario_spec),
            ObjectMeta.Namespace = PodSpec.Namespace (PodSpec scenario_spec)\<rparr>) = (True, None)
        \<and> stream (failed_watch ?lw) = map Received [?e] @ [ContextDone]
        \<and> (\<forall>x \<in> set [?e]. conditionFunc scenario_spec x \<noteq> (True, None))
        \<longrightarrow> waitForReady failed_watch scenario_spec scenario_step = Some (Some ErrWaitTimeout, [])"
    by blast
  with s g st rej
  have "waitForReady failed_watch scenario_spec scenario_step = Some (Some ErrWaitTimeout, [])"
    by blast
  ultimately show ?thesis using h s g st by simp
qed

text \<open>
  C6. When the cache has synced and the store does not hold the Spec's pod, the
  precondition is done without an error, and \<open>waitFor\<close> returns nil with the whole watch
  stream still unread, whatever the condition and the stream are.
\<close>

theorem waitFor_absent_returns_nil:
  assumes "cache_sync (watch \<lparr>ListWatch.Namespace = PodSpec.Namespace (PodSpec spec),
                               LabelSelector = ''io.drone.name='' @ PodSpec.Name (PodSpec spec)\<rparr>) = Synced"
      and "snd (store (watch \<lparr>ListWatch.Namespace = PodSpec.Namespace (PodSpec spec),
                               LabelSelector = ''io.drone.name='' @ PodSpec.Name (PodSpec spec)\<rparr>)
                  \<lparr>ObjectMeta.Name = PodSpec.Name (PodSpec spec),
                   ObjectMeta.Namespace = PodSpec.Namespace (PodSpec spec)\<rparr>) = (False, None)"
  shows "preconditionFunc spec
           (store (watch \<lparr>ListWatch.Namespace = PodSpec.Namespace (PodSpec spec),
                           LabelSelector = ''io.drone.name='' @ PodSpec.Name (PodSpec spec)\<rparr>))
           = (True, None)
       \<and> waitFor watch spec condition
           = Some (None, stream (watch \<lparr>ListWatch.Namespace = PodSpec.Namespace (PodSpec spec),
                                         LabelSelector = ''io.drone.name='' @ PodSpec.Name (PodSpec spec)\<rparr>))"
  using assms
  by (auto simp: waitFor_def UntilWithSync_def preconditionFunc_def Let_def split: prod.splits)

theorem waitFor_absent_returns_nil_witness:
  "cache_sync (absent_watch (\<lparr>ListWatch.Namespace = PodSpec.Namespace (PodSpec scenario_spec), LabelSelector = ''io.drone.name='' @ PodSpec.Name (PodSpec scenario_spec)\<rparr>)) = Synced
   \<and> snd (store (absent_watch (\<lparr>ListWatch.Namespace = PodSpec.Namespace (PodSpec scenario_spec), LabelSelector = ''io.drone.name='' @ PodSpec.Name (PodSpec scenario_spec)\<rparr>)) (\<lparr>ObjectMeta.Name = PodSpec.Name (PodSpec scenario_spec), ObjectMeta.Namespace = PodSpec.Namespace (PodSpec scenario_spec)\<rparr>)) = (False, None)
   \<and> preconditionFunc scenario_spec (store (absent_watch (\<lparr>ListWatch.Namespace = PodSpec.Namespace (PodSpec scenario_spec), LabelSelector = ''io.drone.name='' @ PodSpec.Name (PodSpec scenario_spec)\<rparr>))) = (True, None)
   \<and> waitFor absent_watch scenario_spec (conditionFunc scenario_spec)
       = Some (None, stream (absent_watch (\<lparr>ListWatch.Namespace = PodSpec.Namespace (PodSpec scenario_spec), LabelSelector = ''io.drone.name='' @ PodSpec.Name (PodSpec scenario_spec)\<rparr>)))
   \<and> stream (absent_watch (\<lparr>ListWatch.Namespace = PodSpec.Namespace (PodSpec scenario_spec), LabelSelector = ''io.drone.name='' @ PodSpec.Name (PodSpec scenario_spec)\<rparr>)) = [ChannelClosed]"
proof -
  have h1: "cache_sync (absent_watch (\<lparr>ListWatch.Namespace = PodSpec.Namespace (PodSpec scenario_spec), LabelSelector = ''io.drone.name='' @ PodSpec.Name (PodSpec scenario_spec)\<rparr>)) = Synced"
    by (simp add: absent_watch_def)
  have h2: "snd (store (absent_watch (\<lparr>ListWatch.Namespace = PodSpec.Namespace (PodSpec scenario_spec), LabelSelector = ''io.drone.name='' @ PodSpec.Name (PodSpec scenario_spec)\<rparr>)) (\<lparr>ObjectMeta.Name = PodSpec.Name (PodSpec scenario_spec), ObjectMeta.Namespace = PodSpec.Namespace (PodSpec scenario_spec)\<rparr>)) = (False, None)"
    by (simp add: absent_watch_def store_of_def)
  have h3: "stream (absent_watch (\<lparr>ListWatch.Namespace = PodSpec.Namespace (PodSpec scenario_spec), LabelSelector = ''io.drone.name='' @ PodSpec.Name (PodSpec scenario_spec)\<rparr>)) = [ChannelClosed]"
    by (simp add: absent_watch_def)
  from waitFor_absent_returns_nil [of absent_watch scenario_spec "conditionFunc scenario_spec", OF h1 h2]
    h1 h2 h3
  show ?thesis by blast
qed

section \<open>Properties of start and Run\<close>

lemma held_suffix: "take (length s - length (held s)) s @ held s = s"
proof -
  define t where "t = takeWhile (\<lambda>c. c \<noteq> CHR 0x0A) (rev s)"
  define d where "d = dropWhile (\<lambda>c. c \<noteq> CHR 0x0A) (rev s)"
  have "rev s = t @ d" by (simp add: t_def d_def)
  then have "rev (rev s) = rev (t @ d)" by (rule arg_cong)
  then have s: "s = rev d @ rev t" by simp
  have h: "held s = rev t" by (simp add: held_def t_def)
  have "length s - length (held s) = length (rev d)" unfolding h by (subst s) simp
  then have "take (length s - length (held s)) s = rev d" by (subst (2) s) simp
  with h s show ?thesis by simp
qed

lemma nicelog_Write_keeps:
  "nicelog_Write p wr out = (wr', out') \<Longrightarrow>
     mset out' + mset (pending wr') = mset out + mset (pending wr) + mset p"
proof -
  assume a: "nicelog_Write p wr out = (wr', out')"
  let ?buf = "pending wr @ p"
  from a have o: "out' = out @ take (length ?buf - length (held ?buf)) ?buf"
    and w: "pending wr' = held ?buf"
    by (auto simp: nicelog_Write_def Let_def)
  have "mset (take (length ?buf - length (held ?buf)) ?buf) + mset (held ?buf) = mset ?buf"
    by (metis held_suffix mset_append)
  then show ?thesis unfolding o w by (simp add: ac_simps)
qed

lemma deliver_keeps:
  "deliver ws so se out = (so', se', out') \<Longrightarrow>
     mset out' + mset (pending so') + mset (pending se')
       = mset out + mset (pending so) + mset (pending se) + mset (concat (map snd ws))"
proof (induction ws so se out rule: deliver.induct)
  case (1 so se out)
  then show ?case by simp
next
  case (2 p ws so se out)
  obtain so1 out1 where n: "nicelog_Write p so out = (so1, out1)"
    by (cases "nicelog_Write p so out")
  with 2 have "mset out' + mset (pending so') + mset (pending se')
       = mset out1 + mset (pending so1) + mset (pending se) + mset (concat (map snd ws))"
    by simp
  with nicelog_Write_keeps [OF n] show ?case by (simp add: ac_simps)
next
  case (3 p ws so se out)
  obtain se1 out1 where n: "nicelog_Write p se out = (se1, out1)"
    by (cases "nicelog_Write p se out")
  with 3 have "mset out' + mset (pending so') + mset (pending se')
       = mset out1 + mset (pending so) + mset (pending se1) + mset (concat (map snd ws))"
    by simp
  with nicelog_Write_keeps [OF n] show ?case by (simp add: ac_simps)
qed


lemma start_refused:
  "executor_err (exec (exec_request spec step)) = Some err \<Longrightarrow>
     start exec spec step w
       = (Some (None, Some err),
          w\<lparr>actions := actions w @ [NewSPDYExecutor (exec_request spec step)]\<rparr>)"
  by (simp add: start_def Let_def)

lemma start_blocked:
  "executor_err (exec (exec_request spec step)) = None \<Longrightarrow>
   stream_result (exec (exec_request spec step)) = None \<Longrightarrow>
     fst (start exec spec step w) = None"
  by (simp add: start_def Let_def split: prod.splits)

lemma start_streamed:
  assumes "executor_err (exec (exec_request spec step)) = None"
      and "stream_result (exec (exec_request spec step)) = Some r"
      and "deliver (writes (exec (exec_request spec step))) nicelog_New nicelog_New (written w) = (so, se, out)"
  shows "start exec spec step w
       = (Some (case r of
                  None \<Rightarrow> (Some \<lparr>ExitCode = 0, Exited = True, OOMKilled = False\<rparr>, None)
                | Some (CodeExitError e code) \<Rightarrow>
                    (Some \<lparr>ExitCode = code, Exited = True, OOMKilled = False\<rparr>, None)
                | Some other \<Rightarrow> (None, Some other)),
          \<lparr>written = out @ pending so @ pending se,
           actions = actions w @ [NewSPDYExecutor (exec_request spec step), Stream,
                                  Flush StdoutStream, Flush StderrStream]\<rparr>)"
  using assms
  by (simp add: start_def Let_def nicelog_Flush_def split: option.splits error.splits)


text \<open>
  C7. Once the executor has been built, \<open>start\<close> sorts what \<open>Stream\<close> returned: nil gives
  the state exited, exit code 0, not OOM-killed, and no error; an \<open>exec.CodeExitError\<close>
  gives the same state with the error's code as exit code, and no error; any other error
  gives no state and that error.
\<close>

theorem start_classifies_stream_outcome:
  assumes "executor_err (exec (exec_request spec step)) = None"
  shows "(stream_result (exec (exec_request spec step)) = Some None \<longrightarrow>
            fst (start exec spec step w)
              = Some (Some \<lparr>ExitCode = 0, Exited = True, OOMKilled = False\<rparr>, None))
       \<and> (\<forall>e code. stream_result (exec (exec_request spec step)) = Some (Some (CodeExitError e code)) \<longrightarrow>
            fst (start exec spec step w)
              = Some (Some \<lparr>ExitCode = code, Exited = True, OOMKilled = False\<rparr>, None))
       \<and> (\<forall>err. stream_result (exec (exec_request spec step)) = Some (Some err)
                \<and> (\<forall>e code. err \<noteq> CodeExitError e code) \<longrightarrow>
            fst (start exec spec step w) = Some (None, Some err))"
proof -
  obtain so se out where d:
    "deliver (writes (exec (exec_request spec step))) nicelog_New nicelog_New (written w) = (so, se, out)"
    by (metis prod_cases3)
  show ?thesis
  proof (intro conjI allI impI)
    assume "stream_result (exec (exec_request spec step)) = Some None"
    from start_streamed [where exec = exec and spec = spec and step = step and w = w, OF assms this d]
    show "fst (start exec spec step w)
              = Some (Some \<lparr>ExitCode = 0, Exited = True, OOMKilled = False\<rparr>, None)"
      by simp
  next
    fix e code
    assume "stream_result (exec (exec_request spec step)) = Some (Some (CodeExitError e code))"
    from start_streamed [where exec = exec and spec = spec and step = step and w = w, OF assms this d]
    show "fst (start exec spec step w)
              = Some (Some \<lparr>ExitCode = code, Exited = True, OOMKilled = False\<rparr>, None)"
      by simp
  next
    fix err
    assume a: "stream_result (exec (exec_request spec step)) = Some (Some err)
                \<and> (\<forall>e code. err \<noteq> CodeExitError e code)"
    then have "stream_result (exec (exec_request spec step)) = Some (Some err)" ..
    from start_streamed [where exec = exec and spec = spec and step = step and w = w, OF assms this d] a
    show "fst (start exec spec step w) = Some (None, Some err)"
      by (cases err) simp_all
  qed
qed


theorem start_classifies_stream_outcome_witness:
  "executor_err ((scenario_exec (Some (Some (CodeExitError (ErrorString ''exit 137'') 137)))) (exec_request scenario_spec scenario_step)) = None
   \<and> stream_result ((scenario_exec (Some (Some (CodeExitError (ErrorString ''exit 137'') 137)))) (exec_request scenario_spec scenario_step))
       = Some (Some (CodeExitError (ErrorString ''exit 137'') 137))
   \<and> fst (start (scenario_exec (Some (Some (CodeExitError (ErrorString ''exit 137'') 137)))) scenario_spec scenario_step fresh_run)
       = Some (Some \<lparr>ExitCode = 137, Exited = True, OOMKilled = False\<rparr>, None)"
proof -
  have h1: "executor_err ((scenario_exec (Some (Some (CodeExitError (ErrorString ''exit 137'') 137)))) (exec_request scenario_spec scenario_step)) = None"
    by (simp add: scenario_exec_def)
  have h2: "stream_result ((scenario_exec (Some (Some (CodeExitError (ErrorString ''exit 137'') 137)))) (exec_request scenario_spec scenario_step))
       = Some (Some (CodeExitError (ErrorString ''exit 137'') 137))"
    by (simp add: scenario_exec_def)
  from start_classifies_stream_outcome [of "scenario_exec (Some (Some (CodeExitError (ErrorString ''exit 137'') 137)))" scenario_spec scenario_step fresh_run, OF h1] h1 h2
  show ?thesis by blast
qed

text \<open>
  C8, as the code has it. \<open>start\<close> returns before the stream call when the executor
  cannot be built: it has then made no flush, and nothing has been written.
\<close>

theorem start_refused_returns_without_flush:
  "fst (start refused_exec scenario_spec scenario_step fresh_run)
     = Some (None, Some (ErrorString ''unable to upgrade connection''))
   \<and> Flush StdoutStream \<notin> set (actions (snd (start refused_exec scenario_spec scenario_step fresh_run)))
   \<and> Flush StderrStream \<notin> set (actions (snd (start refused_exec scenario_spec scenario_step fresh_run)))"
  by (simp add: start_def Let_def refused_exec_def fresh_run_def)

text \<open>
  C8, amended. Whenever \<open>start\<close> returns after the stream call, with a state or with the
  stream's error, it has flushed the stdout sink and then the stderr sink after the
  stream, and every byte written to the sinks has reached the output. When the executor
  cannot be built, \<open>start\<close> returns without a stream call and without a flush, and the
  output is unchanged.
\<close>

theorem start_flushes_after_stream:
  assumes "start exec spec step w = (Some res, w')"
  shows "(executor_err (exec (exec_request spec step)) = None \<longrightarrow>
            actions w' = actions w @ [NewSPDYExecutor (exec_request spec step), Stream,
                                      Flush StdoutStream, Flush StderrStream]
          \<and> mset (written w')
              = mset (written w) + mset (concat (map snd (writes (exec (exec_request spec step))))))
       \<and> (executor_err (exec (exec_request spec step)) \<noteq> None \<longrightarrow>
            actions w' = actions w @ [NewSPDYExecutor (exec_request spec step)]
          \<and> written w' = written w)"
proof (intro conjI impI)
  assume ok: "executor_err (exec (exec_request spec step)) = None"
  obtain so se out where d:
    "deliver (writes (exec (exec_request spec step))) nicelog_New nicelog_New (written w) = (so, se, out)"
    by (metis prod_cases3)
  from assms start_blocked [where exec = exec and spec = spec and step = step and w = w, OF ok] obtain r where
    r: "stream_result (exec (exec_request spec step)) = Some r"
    by (cases "stream_result (exec (exec_request spec step))") auto
  from start_streamed [where exec = exec and spec = spec and step = step and w = w, OF ok r d] assms
  have w': "w' = \<lparr>written = out @ pending so @ pending se,
           actions = actions w @ [NewSPDYExecutor (exec_request spec step), Stream,
                                  Flush StdoutStream, Flush StderrStream]\<rparr>"
    by simp
  then show "actions w' = actions w @ [NewSPDYExecutor (exec_request spec step), Stream,
                                      Flush StdoutStream, Flush StderrStream]"
    by simp
  from deliver_keeps [OF d] w'
  show "mset (written w')
          = mset (written w) + mset (concat (map snd (writes (exec (exec_request spec step)))))"
    by (simp add: nicelog_New_def ac_simps)
next
  assume "executor_err (exec (exec_request spec step)) \<noteq> None"
  then obtain err where "executor_err (exec (exec_request spec step)) = Some err" by auto
  from start_refused [where exec = exec and spec = spec and step = step and w = w, OF this] assms
  have "w' = w\<lparr>actions := actions w @ [NewSPDYExecutor (exec_request spec step)]\<rparr>" by simp
  then show "actions w' = actions w @ [NewSPDYExecutor (exec_request spec step)]"
    and "written w' = written w" by simp_all
qed


theorem start_flushes_after_stream_witness:
  "start (scenario_exec (Some (Some (ErrorString ''EOF'')))) scenario_spec scenario_step fresh_run
     = (Some (None, Some (ErrorString ''EOF'')),
        \<lparr>written = [CHR ''a'', CHR 0x0A, CHR ''b'', CHR ''c'', CHR 0x0A, CHR ''d'', CHR ''x''],
         actions = [NewSPDYExecutor (exec_request scenario_spec scenario_step), Stream, Flush StdoutStream, Flush StderrStream]\<rparr>)
   \<and> executor_err (scenario_exec (Some (Some (ErrorString ''EOF''))) (exec_request scenario_spec scenario_step)) = None
   \<and> actions \<lparr>written = [CHR ''a'', CHR 0x0A, CHR ''b'', CHR ''c'', CHR 0x0A, CHR ''d'', CHR ''x''],
         actions = [NewSPDYExecutor (exec_request scenario_spec scenario_step), Stream, Flush StdoutStream, Flush StderrStream]\<rparr>
       = actions fresh_run @ [NewSPDYExecutor (exec_request scenario_spec scenario_step), Stream, Flush StdoutStream, Flush StderrStream]
   \<and> mset (written \<lparr>written = [CHR ''a'', CHR 0x0A, CHR ''b'', CHR ''c'', CHR 0x0A, CHR ''d'', CHR ''x''],
         actions = [NewSPDYExecutor (exec_request scenario_spec scenario_step), Stream, Flush StdoutStream, Flush StderrStream]\<rparr>)
       = mset (written fresh_run)
         + mset (concat (map snd (writes (scenario_exec (Some (Some (ErrorString ''EOF''))) (exec_request scenario_spec scenario_step)))))"
proof -
  have h: "start (scenario_exec (Some (Some (ErrorString ''EOF'')))) scenario_spec scenario_step fresh_run
     = (Some (None, Some (ErrorString ''EOF'')),
        \<lparr>written = [CHR ''a'', CHR 0x0A, CHR ''b'', CHR ''c'', CHR 0x0A, CHR ''d'', CHR ''x''],
         actions = [NewSPDYExecutor (exec_request scenario_spec scenario_step), Stream, Flush StdoutStream, Flush StderrStream]\<rparr>)"
    by (simp add: start_def Let_def scenario_exec_def refused_exec_def fresh_run_def nicelog_New_def nicelog_Write_def nicelog_Flush_def held_def)
  have e: "executor_err (scenario_exec (Some (Some (ErrorString ''EOF''))) (exec_request scenario_spec scenario_step)) = None"
    by (simp add: scenario_exec_def)
  from start_flushes_after_stream [OF h] h e show ?thesis by blast
qed

lemma start_acts: "actions (snd (start exec spec step w)) \<noteq> actions w"
proof (cases "executor_err (exec (exec_request spec step))")
  case (Some err)
  from start_refused [where exec = exec and spec = spec and step = step and w = w, OF this] show ?thesis by simp
next
  case None
  then show ?thesis
    by (simp add: start_def Let_def nicelog_Flush_def split: prod.splits option.splits error.splits)
qed


text \<open>
  C9. When \<open>waitForReady\<close> returns an error, \<open>Run\<close> returns no state and that error, and has
  done nothing else; when the wait never returns, neither does \<open>Run\<close>; when the wait
  returns nil, \<open>Run\<close> is \<open>start\<close>. So \<open>Run\<close> has built an executor or streamed exactly when
  the wait returned nil.
\<close>

theorem Run_starts_only_after_ready:
  "(\<forall>err rest. waitForReady watch spec step = Some (Some err, rest) \<longrightarrow>
       Run watch exec spec step w = (Some (None, Some err), w))
   \<and> (waitForReady watch spec step = None \<longrightarrow> Run watch exec spec step w = (None, w))
   \<and> (\<forall>rest. waitForReady watch spec step = Some (None, rest) \<longrightarrow>
       Run watch exec spec step w = start exec spec step w)
   \<and> (actions (snd (Run watch exec spec step w)) \<noteq> actions w \<longleftrightarrow>
       (\<exists>rest. waitForReady watch spec step = Some (None, rest)))"
proof -
  have "actions (snd (Run watch exec spec step w)) \<noteq> actions w \<longleftrightarrow>
       (\<exists>rest. waitForReady watch spec step = Some (None, rest))"
    using start_acts [of exec spec step w]
    by (auto simp: Run_def split: option.splits prod.splits)
  then show ?thesis by (simp add: Run_def)
qed


theorem Run_starts_only_after_ready_witness:
  "waitForReady failed_watch scenario_spec scenario_step = Some (Some ErrWaitTimeout, [])
   \<and> Run failed_watch (scenario_exec (Some None)) scenario_spec scenario_step fresh_run
       = (Some (None, Some ErrWaitTimeout), fresh_run)
   \<and> actions (snd (Run failed_watch (scenario_exec (Some None)) scenario_spec scenario_step fresh_run))
       = actions fresh_run"
proof -
  have h: "waitForReady failed_watch scenario_spec scenario_step = Some (Some ErrWaitTimeout, [])"
    by (simp add: waitForReady_def waitFor_def UntilWithSync_def preconditionFunc_def conditionFunc_def store_of_def scenario_watch_def failed_watch_def scenario_pod_def scenario_spec_def Added_def Modified_def PodRunning_def PodPending_def PodFailed_def)
  from Run_starts_only_after_ready
         [of failed_watch scenario_spec scenario_step "scenario_exec (Some None)" fresh_run] h
  have "Run failed_watch (scenario_exec (Some None)) scenario_spec scenario_step fresh_run
       = (Some (None, Some ErrWaitTimeout), fresh_run)"
    by blast
  with h show ?thesis by simp
qed

text \<open>
  C10. Whenever \<open>Run\<close> returns, exactly one of the state and the error is nil. \<open>Run\<close>
  returns unless the wait never returns, or the wait returned nil, the executor was built
  and the stream call never returns.
\<close>

theorem Run_returns_state_or_error:
  "(\<forall>st err. fst (Run watch exec spec step w) = Some (st, err) \<longrightarrow> (st = None \<longleftrightarrow> err \<noteq> None))
   \<and> (fst (Run watch exec spec step w) = None \<longleftrightarrow>
        waitForReady watch spec step = None
        \<or> ((\<exists>rest. waitForReady watch spec step = Some (None, rest))
           \<and> executor_err (exec (exec_request spec step)) = None
           \<and> stream_result (exec (exec_request spec step)) = None))"
proof -
  obtain so se out where d:
    "deliver (writes (exec (exec_request spec step))) nicelog_New nicelog_New (written w) = (so, se, out)"
    by (metis prod_cases3)
  have s1: "\<forall>st err. fst (start exec spec step w) = Some (st, err) \<longrightarrow> (st = None \<longleftrightarrow> err \<noteq> None)"
  proof (cases "executor_err (exec (exec_request spec step))")
    case (Some err)
    from start_refused [where exec = exec and spec = spec and step = step and w = w, OF this] show ?thesis by simp
  next
    case None
    show ?thesis
    proof (cases "stream_result (exec (exec_request spec step))")
      case n: None
      from start_blocked [where exec = exec and spec = spec and step = step and w = w, OF None n] show ?thesis by simp
    next
      case (Some r)
      from start_streamed [where exec = exec and spec = spec and step = step and w = w, OF None Some d] show ?thesis
        by (auto split: option.splits error.splits)
    qed
  qed
  have s2: "fst (start exec spec step w) = None \<longleftrightarrow>
      executor_err (exec (exec_request spec step)) = None
      \<and> stream_result (exec (exec_request spec step)) = None"
  proof (cases "executor_err (exec (exec_request spec step))")
    case (Some err)
    from start_refused [where exec = exec and spec = spec and step = step and w = w, OF this] Some show ?thesis by simp
  next
    case None
    show ?thesis
    proof (cases "stream_result (exec (exec_request spec step))")
      case n: None
      from start_blocked [where exec = exec and spec = spec and step = step and w = w, OF None n] None n show ?thesis by simp
    next
      case (Some r)
      from start_streamed [where exec = exec and spec = spec and step = step and w = w, OF None Some d] None Some show ?thesis by simp
    qed
  qed
  show ?thesis
  proof (cases "waitForReady watch spec step")
    case None
    then show ?thesis by (simp add: Run_def)
  next
    case (Some a)
    obtain e rest where a: "a = (e, rest)" by (cases a)
    show ?thesis
    proof (cases e)
      case None
      with Some a have "Run watch exec spec step w = start exec spec step w"
        by (simp add: Run_def)
      with s1 s2 Some a None show ?thesis by simp
    next
      case (Some err)
      with \<open>waitForReady watch spec step = Some a\<close> a show ?thesis by (simp add: Run_def)
    qed
  qed
qed

theorem Run_returns_state_or_error_witness:
  "fst (Run scenario_watch (scenario_exec (Some None)) scenario_spec scenario_step fresh_run)
     = Some (Some \<lparr>ExitCode = 0, Exited = True, OOMKilled = False\<rparr>, None)
   \<and> fst (Run scenario_watch refused_exec scenario_spec scenario_step fresh_run)
     = Some (None, Some (ErrorString ''unable to upgrade connection''))
   \<and> (Some \<lparr>ExitCode = 0, Exited = True, OOMKilled = False\<rparr> = None
        \<longleftrightarrow> (None :: error option) \<noteq> None)
   \<and> ((None :: State option) = None
        \<longleftrightarrow> Some (ErrorString ''unable to upgrade connection'') \<noteq> None)"
proof -
  have w: "waitForReady scenario_watch scenario_spec scenario_step = Some (None, [])"
    by (simp add: waitForReady_def waitFor_def UntilWithSync_def preconditionFunc_def conditionFunc_def store_of_def scenario_watch_def failed_watch_def scenario_pod_def scenario_spec_def Added_def Modified_def PodRunning_def PodPending_def PodFailed_def)
  have h1: "fst (Run scenario_watch (scenario_exec (Some None)) scenario_spec scenario_step fresh_run)
     = Some (Some \<lparr>ExitCode = 0, Exited = True, OOMKilled = False\<rparr>, None)"
    by (simp add: Run_def w start_def Let_def scenario_exec_def refused_exec_def fresh_run_def nicelog_New_def nicelog_Write_def nicelog_Flush_def held_def)
  have h2: "fst (Run scenario_watch refused_exec scenario_spec scenario_step fresh_run)
     = Some (None, Some (ErrorString ''unable to upgrade connection''))"
    by (simp add: Run_def w start_def Let_def scenario_exec_def refused_exec_def fresh_run_def nicelog_New_def nicelog_Write_def nicelog_Flush_def held_def)
  from Run_returns_state_or_error
         [of scenario_watch "scenario_exec (Some None)" scenario_spec scenario_step fresh_run] h1
  have "Some \<lparr>ExitCode = 0, Exited = True, OOMKilled = False\<rparr> = None
        \<longleftrightarrow> (None :: error option) \<noteq> None"
    by blast
  moreover from Run_returns_state_or_error
         [of scenario_watch refused_exec scenario_spec scenario_step fresh_run] h2
  have "(None :: State option) = None
        \<longleftrightarrow> Some (ErrorString ''unable to upgrade connection'') \<noteq> None"
    by blast
  ultimately show ?thesis using h1 h2 by blast
qed

end
